theory Spec2Isabelle
  imports Main
begin

section \<open>Data model (src/index.ts, src/schema.ts)\<close>

text \<open>
  A notice of the upstream feed (interface \<open>Notice\<close>). The field \<open>id\<close> of the source is
  \<open>nid\<close> here (\<open>id\<close> is the identity function of HOL). Identifiers are integers.
\<close>

record notice =
  nid :: int
  category :: string
  department :: string
  title :: string
  content :: string
  url :: string
  date :: string

text \<open>A row of the table \<open>discord_bot\<close> (schema.ts); \<open>webhook\<close> is its primary key.\<close>

record bot =
  webhook :: string
  latestId :: int
  queryParams :: string

text \<open>The request body of a registration (interface \<open>Payload\<close>); every field is optional.\<close>

datatype Payload = Payload "string option" "string option" "string option"

text \<open>A \<open>FormData\<close> body: the appended (name, value) pairs, in order.\<close>

type_synonym form = "(string \<times> string) list"

text \<open>
  What \<open>env.NOTICE_WORKER.fetch(url)\<close> followed by \<open>response.json()\<close> gives. The fetch
  rejects; or the body is not JSON; or it is JSON, which the code takes for a \<open>Notice[]\<close>
  without looking:
  \<^item> \<open>Notices ns\<close>: an array of notices, the declared type;
  \<^item> \<open>Items xs\<close>: an array whose elements are notices or \<open>null\<close> (\<open>None\<close>);
  \<^item> \<open>NotArray x\<close>: a value that is neither \<open>null\<close> nor an array (an object, a number, a
    string), with \<open>x\<close> the notice under its key \<open>0\<close>, if it has one;
  \<^item> \<open>NullBody\<close>: the value \<open>null\<close>.
  An element that is an object is read as a notice.
\<close>

datatype feed =
    FetchRejects
  | JsonRejects
  | NullBody
  | NotArray "notice option"
  | Items "notice option list"
  | Notices "notice list"

text \<open>
  The effects a handler performs on the outside world, in the order it performs them:
  the store operations, the call of the notice service (with its URL) and the POST to a
  webhook endpoint. \<open>Dispatch u n f\<close> is the POST of the form \<open>f\<close>, built in the loop iteration of
  notice \<open>n\<close>, to the URL \<open>u\<close>; it is recorded when the call is made, whether it then
  resolves or rejects.
\<close>

datatype event =
    Select string
  | SelectAll
  | Insert bot
  | Update string int
  | Delete string
  | NoticeFetch string
  | Dispatch string notice form

text \<open>Exceptions that leave a handler uncaught.\<close>

datatype error = BodyError | UpstreamError | MalformedFeed | DispatchError

text \<open>
  The collaborators of one invocation: the notice service (what it answers to a request
  for a URL), the outcome of a POST
  to a webhook endpoint (\<open>True\<close> when the promise resolves, whatever the HTTP status;
  \<open>False\<close> when it rejects), and the percent-encoding that \<open>URLSearchParams.toString\<close>
  applies to a value (a platform function, taken as a parameter).
\<close>

record env =
  NOTICE_WORKER :: "string \<Rightarrow> feed"
  webhook_fetch :: "string \<Rightarrow> form \<Rightarrow> bool"
  urlencode :: "string \<Rightarrow> string"

text \<open>The store (binding \<open>DB\<close>: the rows of \<open>discord_bot\<close>) and the effects so far.\<close>

record state =
  DB :: "bot list"
  trace :: "event list"

text \<open>
  What the handler reads of a request: \<open>request.method\<close> (here \<open>meth\<close>), the path and the
  query parameters of its URL, and the result of \<open>request.json()\<close> (\<open>None\<close> when it
  rejects).
\<close>

record request =
  meth :: string
  pathname :: string
  searchParams :: "(string \<times> string) list"
  json :: "Payload option"

datatype body = Text string | Json bot

record response =
  status :: nat
  body :: body
  headers :: "(string \<times> string) list"

section \<open>The store\<close>

text \<open>
  The table is the list of its rows, in the order \<open>all()\<close> returns them. The store is
  taken to be available: the only statement that can throw is an insert that violates
  the primary key. Invocations run one after the other; two handlers interleaved at
  their \<open>await\<close>s are not modelled.
\<close>

text \<open>\<open>db.select().from(discordBot).where(eq(discordBot.webhook, w)).get()\<close>\<close>

definition select_get :: "bot list \<Rightarrow> string \<Rightarrow> bot option" where
  "select_get db w = find (\<lambda>r. webhook r = w) db"

text \<open>
  \<open>db.insert(discordBot).values(r)\<close>: the primary key rejects a second row with the same
  webhook (\<open>None\<close>: the statement throws).
\<close>

definition insert_values :: "bot list \<Rightarrow> bot \<Rightarrow> bot list option" where
  "insert_values db r = (if select_get db (webhook r) = None then Some (db @ [r]) else None)"

text \<open>\<open>db.update(discordBot).set({ latestId }).where(eq(discordBot.webhook, w))\<close>\<close>

definition update_set :: "bot list \<Rightarrow> string \<Rightarrow> int \<Rightarrow> bot list" where
  "update_set db w v = map (\<lambda>r. if webhook r = w then r\<lparr>latestId := v\<rparr> else r) db"

text \<open>
  \<open>db.delete(discordBot).where(eq(discordBot.webhook, w))\<close>, with \<open>result.meta.rows_read\<close>
  taken as the number of rows that matched.
\<close>

definition delete_where :: "bot list \<Rightarrow> string \<Rightarrow> bot list \<times> nat" where
  "delete_where db w =
     (filter (\<lambda>r. webhook r \<noteq> w) db, length (filter (\<lambda>r. webhook r = w) db))"

section \<open>Helpers of the handlers\<close>

definition API_URL :: string where
  "API_URL = ''https://ajou-notice.asitis.workers.dev''"

text \<open>
  The three URLs given to \<open>env.NOTICE_WORKER.fetch\<close>, for a query string \<open>q\<close>: by the
  registration (line 79), by the refresh (line 165, no origin) and by the sweep (line 204).
\<close>

definition register_target :: "string \<Rightarrow> string" where
  "register_target q = API_URL @ ''/api/notices?'' @ q"

definition refresh_target :: "string \<Rightarrow> string" where
  "refresh_target q = ''/api/notices?'' @ q"

definition scheduled_target :: "string \<Rightarrow> string" where
  "scheduled_target q = ''https://ajou-notice.asitis.workers.dev/api/notices?'' @ q"

text \<open>
  \<open>env.NOTICE_WORKER.fetch(url)\<close> makes a request of the string, which is parsed with no
  base URL: a string that does not start with a scheme (a letter, then letters, digits,
  \<open>+\<close>, \<open>-\<close> or \<open>.\<close>, then a colon) is refused with \<open>TypeError: Invalid URL\<close> and the
  service is not asked.
\<close>

definition letter :: "char \<Rightarrow> bool" where
  "letter c = (c \<in> set ''abcdefghijklmnopqrstuvwxyzABCDEFGHIJKLMNOPQRSTUVWXYZ'')"

definition scheme_char :: "char \<Rightarrow> bool" where
  "scheme_char c = (letter c \<or> c \<in> set ''0123456789+-.'')"

definition absolute :: "string \<Rightarrow> bool" where
  "absolute u =
     (case u of
        [] \<Rightarrow> False
      | c # cs \<Rightarrow>
          letter c \<and> (case dropWhile scheme_char cs of [] \<Rightarrow> False | d # _ \<Rightarrow> d = CHR '':''))"

definition service :: "env \<Rightarrow> string \<Rightarrow> feed" where
  "service e u = (if absolute u then NOTICE_WORKER e u else FetchRejects)"

text \<open>\<open>if (v) queryParams.append(k, v)\<close>: an absent or empty value is falsy.\<close>

definition append_param ::
  "string \<Rightarrow> string option \<Rightarrow> (string \<times> string) list \<Rightarrow> (string \<times> string) list" where
  "append_param k v ps =
     (case v of None \<Rightarrow> ps | Some x \<Rightarrow> if x = [] then ps else ps @ [(k, x)])"

text \<open>
  \<open>queryParams.toString()\<close>: \<open>name=value\<close> pairs joined by \<open>&\<close>. The three names used
  are alphanumeric, which the encoding leaves as they are.
\<close>

fun toString :: "(string \<Rightarrow> string) \<Rightarrow> (string \<times> string) list \<Rightarrow> string" where
  "toString enc [] = []"
| "toString enc [(k, v)] = k @ ''='' @ enc v"
| "toString enc ((k, v) # p # ps) = k @ ''='' @ enc v @ ''&'' @ toString enc (p # ps)"

text \<open>\<open>notices[0]?.id ?? 0\<close>\<close>

definition latestId_of :: "notice list \<Rightarrow> int" where
  "latestId_of notices = (case notices of [] \<Rightarrow> 0 | n # _ \<Rightarrow> nid n)"

text \<open>\<open>notices.filter((notice) => notice.id > info.latestId).reverse()\<close>\<close>

definition newNotices :: "int \<Rightarrow> notice list \<Rightarrow> notice list" where
  "newNotices w notices = rev (filter (\<lambda>notice. nid notice > w) notices)"

text \<open>
  The same two expressions on whatever the body was (\<open>None\<close>: the expression throws a
  \<open>TypeError\<close>). \<open>notices[0]?.id ?? 0\<close> reads the element 0 only, and throws on \<open>null\<close>;
  \<open>notices.filter\<close> is not a function unless the value is an array, and its callback
  throws on an element \<open>null\<close>.
\<close>

fun latestId_in :: "feed \<Rightarrow> int option" where
  "latestId_in (Notices notices) = Some (latestId_of notices)"
| "latestId_in (Items xs) = Some (case xs of Some n # _ \<Rightarrow> nid n | _ \<Rightarrow> 0)"
| "latestId_in (NotArray x) = Some (case x of Some n \<Rightarrow> nid n | None \<Rightarrow> 0)"
| "latestId_in _ = None"

fun newNotices_in :: "int \<Rightarrow> feed \<Rightarrow> notice list option" where
  "newNotices_in w (Notices notices) = Some (newNotices w notices)"
| "newNotices_in w (Items xs) = map_option (newNotices w) (those xs)"
| "newNotices_in w _ = None"

text \<open>\<open>if (latestId > w) await db.update(discordBot).set({ latestId }).where(...)\<close>\<close>

definition guarded_update :: "string \<Rightarrow> int \<Rightarrow> int \<Rightarrow> state \<Rightarrow> state" where
  "guarded_update wh w latest s =
     (if latest > w
      then \<lparr>DB = update_set (DB s) wh latest, trace = trace s @ [Update wh latest]\<rparr>
      else s)"

definition log_event :: "event \<Rightarrow> state \<Rightarrow> state" where
  "log_event ev s = s\<lparr>trace := trace s @ [ev]\<rparr>"

definition bad_request :: response where
  "bad_request =
     \<lparr>status = 400, body = Text ''Bad Request: Missing `webhook` parameter'', headers = []\<rparr>"

definition not_found :: response where
  "not_found = \<lparr>status = 404, body = Text ''Not Found: Webhook not found'', headers = []\<rparr>"

definition internal_error :: response where
  "internal_error = \<lparr>status = 500, body = Text ''Internal Server Error'', headers = []\<rparr>"

definition method_not_allowed :: response where
  "method_not_allowed =
     \<lparr>status = 405, body = Text ''Method Not Allowed'', headers = [(''Allow'', ''GET'')]\<rparr>"

definition preflight :: response where
  "preflight =
     \<lparr>status = 200, body = Text [],
      headers = [(''Access-Control-Allow-Origin'', ''*''),
                 (''Access-Control-Allow-Methods'', ''GET,POST,DELETE,OPTIONS''),
                 (''Access-Control-Allow-Headers'', ''Content-Type''),
                 (''Access-Control-Max-Age'', ''86400'')]\<rparr>"

definition conflict :: response where
  "conflict =
     \<lparr>status = 409, body = Text ''Conflict: Duplicate entry for unique field'', headers = []\<rparr>"

definition registered :: response where
  "registered = \<lparr>status = 201, body = Text ''Webhook registered successfully'', headers = []\<rparr>"

definition deleted :: response where
  "deleted = \<lparr>status = 200, body = Text ''Webhook deleted successfully'', headers = []\<rparr>"

definition success :: response where
  "success = \<lparr>status = 200, body = Text ''Success'', headers = []\<rparr>"

definition fallback :: response where
  "fallback = \<lparr>status = 404, body = Text ''Call /api/webhook'', headers = []\<rparr>"

section \<open>The request handler \<open>fetch\<close>\<close>

text \<open>GET /api/webhook (lines 44-63).\<close>

definition get_webhook :: "request \<Rightarrow> state \<Rightarrow> (error + response) \<times> state" where
  "get_webhook request s =
     (case map_of (searchParams request) ''webhook'' of
        None \<Rightarrow> (Inr bad_request, s)
      | Some wh \<Rightarrow>
          if wh = [] then (Inr bad_request, s)
          else
            (let s1 = log_event (Select wh) s in
             case select_get (DB s1) wh of
               None \<Rightarrow> (Inr not_found, s1)
             | Some info \<Rightarrow>
                 (Inr \<lparr>status = 200, body = Json info,
                       headers = [(''Access-Control-Allow-Origin'', ''*'')]\<rparr>, s1)))"

text \<open>
  POST /api/webhook (lines 64-107). The body is read and the notices are fetched before
  the store is asked whether the webhook exists; the \<open>try\<close> covers the store only.
\<close>

definition post_webhook :: "env \<Rightarrow> request \<Rightarrow> state \<Rightarrow> (error + response) \<times> state" where
  "post_webhook e request s =
     (case map_of (searchParams request) ''webhook'' of
        None \<Rightarrow> (Inr bad_request, s)
      | Some wh \<Rightarrow>
          if wh = [] then (Inr bad_request, s)
          else
            (case json request of
               None \<Rightarrow> (Inl BodyError, s)
             | Some (Payload cat dep search) \<Rightarrow>
                 (let qp = append_param ''search'' search
                             (append_param ''department'' dep
                               (append_param ''category'' cat []));
                      target = register_target (toString (urlencode e) qp);
                      s1 = log_event (NoticeFetch target) s
                  in case service e target of
                       FetchRejects \<Rightarrow> (Inl UpstreamError, s1)
                     | JsonRejects \<Rightarrow> (Inl MalformedFeed, s1)
                     | notices \<Rightarrow>
                         (case latestId_in notices of
                            None \<Rightarrow> (Inl MalformedFeed, s1)
                          | Some latest \<Rightarrow>
                              (let newRecord = \<lparr>webhook = wh, latestId = latest,
                                                queryParams = toString (urlencode e) qp\<rparr>;
                                   s2 = log_event (Select wh) s1
                               in case select_get (DB s2) wh of
                                    Some info \<Rightarrow> (Inr conflict, s2)
                                  | None \<Rightarrow>
                                      (let s3 = log_event (Insert newRecord) s2 in
                                       case insert_values (DB s3) newRecord of
                                         None \<Rightarrow> (Inr internal_error, s3)
                                       | Some db' \<Rightarrow> (Inr registered, s3\<lparr>DB := db'\<rparr>)))))))"

text \<open>DELETE /api/webhook (lines 108-132).\<close>

definition delete_webhook :: "request \<Rightarrow> state \<Rightarrow> (error + response) \<times> state" where
  "delete_webhook request s =
     (case map_of (searchParams request) ''webhook'' of
        None \<Rightarrow> (Inr bad_request, s)
      | Some wh \<Rightarrow>
          if wh = [] then (Inr bad_request, s)
          else
            (let s1 = log_event (Delete wh) s;
                 (db', rows_read) = delete_where (DB s1) wh
             in if rows_read = 0 then (Inr not_found, s1\<lparr>DB := db'\<rparr>)
                else (Inr deleted, s1\<lparr>DB := db'\<rparr>)))"

text \<open>
  The delivery loop of the refresh handler (lines 177-186): one POST per notice, each
  awaited; a POST that rejects ends the handler with its exception.
\<close>

fun refresh_loop :: "env \<Rightarrow> string \<Rightarrow> notice list \<Rightarrow> state \<Rightarrow> (error + unit) \<times> state" where
  "refresh_loop e wh [] s = (Inr (), s)"
| "refresh_loop e wh (notice # rest) s =
     (let form = [(''content'', title notice @ [CHR 0x0A] @ url notice),
                  (''avatar_url'',
                   ''https://www.ajou.ac.kr/_res/ajou/kr/img/intro/img-symbol.png'')];
          s1 = log_event (Dispatch wh notice form) s
      in if webhook_fetch e wh form then refresh_loop e wh rest s1
         else (Inl DispatchError, s1))"

text \<open>
  POST /api/webhook/refresh (lines 141-191). The URL of line 165 has no origin, unlike
  those of lines 79 and 204.
\<close>

definition refresh :: "env \<Rightarrow> request \<Rightarrow> state \<Rightarrow> (error + response) \<times> state" where
  "refresh e request s =
     (if meth request \<noteq> ''POST'' then (Inr method_not_allowed, s)
      else
        case map_of (searchParams request) ''webhook'' of
          None \<Rightarrow> (Inr bad_request, s)
        | Some wh \<Rightarrow>
            if wh = [] then (Inr bad_request, s)
            else
              (let s1 = log_event (Select wh) s in
               case select_get (DB s1) wh of
                 None \<Rightarrow> (Inr not_found, s1)
               | Some info \<Rightarrow>
                   (let target = refresh_target (queryParams info);
                        s2 = log_event (NoticeFetch target) s1
                    in case service e target of
                         FetchRejects \<Rightarrow> (Inl UpstreamError, s2)
                       | JsonRejects \<Rightarrow> (Inl MalformedFeed, s2)
                       | notices \<Rightarrow>
                           (case latestId_in notices of
                              None \<Rightarrow> (Inl MalformedFeed, s2)
                            | Some latest \<Rightarrow>
                                (let s3 = guarded_update wh (latestId info) latest s2 in
                                 case newNotices_in (latestId info) notices of
                                   None \<Rightarrow> (Inl MalformedFeed, s3)
                                 | Some news \<Rightarrow>
                                     (case refresh_loop e wh news s3 of
                                        (Inl err, s4) \<Rightarrow> (Inl err, s4)
                                      | (Inr _, s4) \<Rightarrow> (Inr success, s4)))))))"

definition fetch :: "env \<Rightarrow> request \<Rightarrow> state \<Rightarrow> (error + response) \<times> state" where
  "fetch e request s =
     (if pathname request = ''/api/webhook'' then
        (if meth request = ''OPTIONS'' then (Inr preflight, s)
         else if meth request = ''GET'' then get_webhook request s
         else if meth request = ''POST'' then post_webhook e request s
         else if meth request = ''DELETE'' then delete_webhook request s
         else (Inr method_not_allowed, s))
      else if pathname request = ''/api/webhook/refresh'' then refresh e request s
      else (Inr fallback, s))"

section \<open>The scheduled handler\<close>

text \<open>The delivery loop of the sweep (lines 216-225).\<close>

fun scheduled_loop :: "env \<Rightarrow> bot \<Rightarrow> notice list \<Rightarrow> state \<Rightarrow> (error + unit) \<times> state" where
  "scheduled_loop e b [] s = (Inr (), s)"
| "scheduled_loop e b (notice # rest) s =
     (let form = [(''content'', title notice @ [CHR 0x0A] @ url notice),
                  (''avatar_url'',
                   ''https://www.ajou.ac.kr/_res/ajou/kr/img/intro/img-symbol.png'')];
          s1 = log_event (Dispatch (webhook b) notice form) s
      in if webhook_fetch e (webhook b) form then scheduled_loop e b rest s1
         else (Inl DispatchError, s1))"

text \<open>The body of the sweep for one row \<open>b\<close> of the list read at its start (lines 204-225).\<close>

definition scheduled_body :: "env \<Rightarrow> bot \<Rightarrow> state \<Rightarrow> (error + unit) \<times> state" where
  "scheduled_body e b s =
     (let target = scheduled_target (queryParams b);
          s1 = log_event (NoticeFetch target) s
      in case service e target of
           FetchRejects \<Rightarrow> (Inl UpstreamError, s1)
         | JsonRejects \<Rightarrow> (Inl MalformedFeed, s1)
         | notices \<Rightarrow>
             (case latestId_in notices of
                None \<Rightarrow> (Inl MalformedFeed, s1)
              | Some latest \<Rightarrow>
                  (let s2 = guarded_update (webhook b) (latestId b) latest s1 in
                   case newNotices_in (latestId b) notices of
                     None \<Rightarrow> (Inl MalformedFeed, s2)
                   | Some news \<Rightarrow> scheduled_loop e b news s2)))"

text \<open>
  \<open>for (const bot of bots)\<close> (line 203): there is no \<open>try\<close> in the handler, so the first
  exception of a body ends the loop.
\<close>

fun scheduled_for :: "env \<Rightarrow> bot list \<Rightarrow> state \<Rightarrow> (error + unit) \<times> state" where
  "scheduled_for e [] s = (Inr (), s)"
| "scheduled_for e (b # bots) s =
     (case scheduled_body e b s of
        (Inl err, s1) \<Rightarrow> (Inl err, s1)
      | (Inr _, s1) \<Rightarrow> scheduled_for e bots s1)"

definition scheduled :: "env \<Rightarrow> state \<Rightarrow> (error + unit) \<times> state" where
  "scheduled e s = (let s1 = log_event SelectAll s in scheduled_for e (DB s1) s1)"

section \<open>Invocations\<close>

text \<open>
  The host calls \<open>fetch\<close> for a request and \<open>scheduled\<close> for a tick of the cron trigger,
  one invocation after the other; the store and the effects outlive an invocation, also
  one that ends with an exception. Each invocation has its own collaborators.
\<close>

datatype call = Http request | Cron

fun step :: "env \<times> call \<Rightarrow> state \<Rightarrow> state" where
  "step (e, Http request) s = snd (fetch e request s)"
| "step (e, Cron) s = snd (scheduled e s)"

definition run :: "(env \<times> call) list \<Rightarrow> state \<Rightarrow> state" where
  "run cs s = fold step cs s"

text \<open>The invocations that synchronise: a refresh request and a tick.\<close>

fun is_sync :: "env \<times> call \<Rightarrow> bool" where
  "is_sync (e, Http request) = (pathname request = ''/api/webhook/refresh'')"
| "is_sync (e, Cron) = True"

section \<open>Vocabulary of the properties\<close>

text \<open>The form that both delivery loops build for a notice.\<close>

definition message :: "notice \<Rightarrow> form" where
  "message n =
     [(''content'', title n @ [CHR 0x0A] @ url n),
      (''avatar_url'', ''https://www.ajou.ac.kr/_res/ajou/kr/img/intro/img-symbol.png'')]"

text \<open>
  The notices of a list for which a delivery loop makes its POST: all of them up to and
  including the first whose POST rejects.
\<close>

fun attempted :: "env \<Rightarrow> string \<Rightarrow> notice list \<Rightarrow> notice list" where
  "attempted e wh [] = []"
| "attempted e wh (n # ns) =
     n # (if webhook_fetch e wh (message n) then attempted e wh ns else [])"

text \<open>Every POST of the list resolves.\<close>

definition delivers :: "env \<Rightarrow> string \<Rightarrow> notice list \<Rightarrow> bool" where
  "delivers e wh ns = list_all (\<lambda>n. webhook_fetch e wh (message n)) ns"

definition outcome :: "env \<Rightarrow> string \<Rightarrow> notice list \<Rightarrow> error + unit" where
  "outcome e wh ns = (if delivers e wh ns then Inr () else Inl DispatchError)"

definition posts :: "string \<Rightarrow> notice list \<Rightarrow> event list" where
  "posts wh ns = map (\<lambda>n. Dispatch wh n (message n)) ns"

text \<open>The store and the store effect of the guarded update \<open>if (latestId > w)\<close>.\<close>

definition advance :: "bot list \<Rightarrow> string \<Rightarrow> int \<Rightarrow> int \<Rightarrow> bot list" where
  "advance db wh w latest = (if latest > w then update_set db wh latest else db)"

definition advance_events :: "string \<Rightarrow> int \<Rightarrow> int \<Rightarrow> event list" where
  "advance_events wh w latest = (if latest > w then [Update wh latest] else [])"

text \<open>A request that reaches the lookup of the refresh handler, for the webhook \<open>wh\<close>.\<close>

definition refresh_request :: "request \<Rightarrow> string \<Rightarrow> bool" where
  "refresh_request request wh \<longleftrightarrow>
     pathname request = ''/api/webhook/refresh'' \<and> meth request = ''POST'' \<and>
     map_of (searchParams request) ''webhook'' = Some wh \<and> wh \<noteq> []"

text \<open>A registration request for the webhook \<open>wh\<close> whose body is the payload \<open>p\<close>.\<close>

definition registration_request :: "request \<Rightarrow> string \<Rightarrow> Payload \<Rightarrow> bool" where
  "registration_request request wh p \<longleftrightarrow>
     pathname request = ''/api/webhook'' \<and> meth request = ''POST'' \<and>
     map_of (searchParams request) ''webhook'' = Some wh \<and> wh \<noteq> [] \<and>
     json request = Some p"

text \<open>The query string the registration builds from a payload.\<close>

fun query_of :: "env \<Rightarrow> Payload \<Rightarrow> string" where
  "query_of e (Payload cat dep search) =
     toString (urlencode e)
       (append_param ''search'' search
         (append_param ''department'' dep (append_param ''category'' cat [])))"

text \<open>A list in the order the feed promises: no notice is newer than one before it.\<close>

definition newest_first :: "notice list \<Rightarrow> bool" where
  "newest_first ns = sorted_wrt (\<lambda>a b. nid b \<le> nid a) ns"

text \<open>The watermark stored for a webhook, if it is registered.\<close>

definition watermark :: "state \<Rightarrow> string \<Rightarrow> int option" where
  "watermark s wh = map_option latestId (select_get (DB s) wh)"

text \<open>
  The exception of a feed that fails before the guarded update is reached: the fetch
  rejects, the body is not JSON, or it is \<open>null\<close>.
\<close>

definition feed_error :: "feed \<Rightarrow> error option" where
  "feed_error f =
     (case f of FetchRejects \<Rightarrow> Some UpstreamError | JsonRejects \<Rightarrow> Some MalformedFeed
      | NullBody \<Rightarrow> Some MalformedFeed | _ \<Rightarrow> None)"

text \<open>
  For the row \<open>b\<close> the sweep fetches a newest-first list whose newest id (0 for the empty
  list) is at most the watermark of \<open>b\<close>.
\<close>

definition idle :: "env \<Rightarrow> bot \<Rightarrow> bool" where
  "idle e b =
     (case NOTICE_WORKER e (scheduled_target (queryParams b)) of
        Notices ns \<Rightarrow> newest_first ns \<and> latestId_of ns \<le> latestId b
      | _ \<Rightarrow> False)"

text \<open>The effects of a sweep over rows that are all \<open>idle\<close>.\<close>

definition idle_sweep :: "bot list \<Rightarrow> event list" where
  "idle_sweep db = SelectAll # map (\<lambda>b. NoticeFetch (scheduled_target (queryParams b))) db"

text \<open>
  An event that is not the delivery, to the webhook \<open>wh\<close>, of a notice whose id is at
  most \<open>L\<close>.
\<close>

fun fresh :: "int \<Rightarrow> string \<Rightarrow> event \<Rightarrow> bool" where
  "fresh L wh (Dispatch u n f) = (u \<noteq> wh \<or> L < nid n)"
| "fresh L wh ev = True"

text \<open>Every row of the webhook \<open>wh\<close> has a watermark of at least \<open>L\<close>.\<close>

definition above :: "int \<Rightarrow> string \<Rightarrow> bot list \<Rightarrow> bool" where
  "above L wh db = list_all (\<lambda>r. webhook r \<noteq> wh \<or> L \<le> latestId r) db"

text \<open>
  From \<open>s\<close> to \<open>s'\<close> the effects were only extended, by events that are \<open>fresh\<close>, and
  the rows of \<open>s'\<close> are \<open>above\<close>.
\<close>

definition keeps :: "int \<Rightarrow> string \<Rightarrow> state \<Rightarrow> state \<Rightarrow> bool" where
  "keeps L wh s s' \<longleftrightarrow>
     above L wh (DB s') \<and> list_all (fresh L wh) (drop (length (trace s)) (trace s'))
     \<and> take (length (trace s)) (trace s') = trace s"

section \<open>Example data\<close>

definition ex_hook :: string where
  "ex_hook = ''https://discord.com/api/webhooks/1/token''"

definition ex_query :: string where
  "ex_query = ''category=academic''"

definition ex_notice :: "int \<Rightarrow> notice" where
  "ex_notice i =
     \<lparr>nid = i, category = ''academic'', department = ''software'', title = ''Notice'',
      content = ''text'', url = ''https://www.ajou.ac.kr/notice'', date = ''2024-09-09''\<rparr>"

text \<open>The feed of the gap example: ids 103, 102, 101, 100, newest first.\<close>

definition ex_feed :: "notice list" where
  "ex_feed = [ex_notice 103, ex_notice 102, ex_notice 101, ex_notice 100]"

definition ex_bot :: "int \<Rightarrow> bot" where
  "ex_bot w = \<lparr>webhook = ex_hook, latestId = w, queryParams = ex_query\<rparr>"

text \<open>A store with the one subscription \<open>ex_hook\<close>, whose watermark is \<open>w\<close>.\<close>

definition ex_state :: "int \<Rightarrow> state" where
  "ex_state w = \<lparr>DB = [ex_bot w], trace = []\<rparr>"

definition ex_empty :: state where
  "ex_empty = \<lparr>DB = [], trace = []\<rparr>"

text \<open>Collaborators that work: every query gives \<open>ex_feed\<close> and every POST resolves.\<close>

definition ex_env :: env where
  "ex_env = \<lparr>NOTICE_WORKER = (\<lambda>u. Notices ex_feed), webhook_fetch = (\<lambda>u f. True),
             urlencode = (\<lambda>v. v)\<rparr>"

text \<open>The same, with a webhook endpoint that cannot be reached: every POST rejects.\<close>

definition ex_unreachable :: env where
  "ex_unreachable = \<lparr>NOTICE_WORKER = (\<lambda>u. Notices ex_feed), webhook_fetch = (\<lambda>u f. False),
                     urlencode = (\<lambda>v. v)\<rparr>"

text \<open>
  The same as \<open>ex_env\<close>, with a notice service that answers every query with the array of
  a notice 500 and a \<open>null\<close>.
\<close>

definition ex_broken :: env where
  "ex_broken = \<lparr>NOTICE_WORKER = (\<lambda>u. Items [Some (ex_notice 500), None]),
                webhook_fetch = (\<lambda>u f. True), urlencode = (\<lambda>v. v)\<rparr>"

text \<open>The same as \<open>ex_env\<close>, with a notice service that cannot be reached.\<close>

definition ex_down :: env where
  "ex_down = \<lparr>NOTICE_WORKER = (\<lambda>u. FetchRejects), webhook_fetch = (\<lambda>u f. True),
              urlencode = (\<lambda>v. v)\<rparr>"

definition ex_refresh :: request where
  "ex_refresh = \<lparr>meth = ''POST'', pathname = ''/api/webhook/refresh'',
                 searchParams = [(''webhook'', ex_hook)], json = None\<rparr>"

definition ex_payload :: Payload where
  "ex_payload = Payload (Some ''academic'') None None"

definition ex_register :: request where
  "ex_register = \<lparr>meth = ''POST'', pathname = ''/api/webhook'',
                  searchParams = [(''webhook'', ex_hook)], json = Some ex_payload\<rparr>"

text \<open>A second registration of the same webhook, with another filter.\<close>

definition ex_payload2 :: Payload where
  "ex_payload2 = Payload None (Some ''software'') None"

definition ex_register2 :: request where
  "ex_register2 = \<lparr>meth = ''POST'', pathname = ''/api/webhook'',
                   searchParams = [(''webhook'', ex_hook)], json = Some ex_payload2\<rparr>"

text \<open>A GET without the \<open>webhook\<close> parameter.\<close>

definition ex_get :: request where
  "ex_get = \<lparr>meth = ''GET'', pathname = ''/api/webhook'', searchParams = [], json = None\<rparr>"

text \<open>
  A store with three subscriptions, and collaborators for which the feed of the second
  cannot be fetched while the feeds of the others are \<open>ex_feed\<close>.
\<close>

definition ex_first :: bot where
  "ex_first = \<lparr>webhook = ''https://discord.com/api/webhooks/1/token'', latestId = 102,
               queryParams = ''category=academic''\<rparr>"

definition ex_second :: bot where
  "ex_second = \<lparr>webhook = ''https://discord.com/api/webhooks/2/token'', latestId = 100,
                queryParams = ''category=broken''\<rparr>"

definition ex_third :: bot where
  "ex_third = \<lparr>webhook = ''https://discord.com/api/webhooks/3/token'', latestId = 102,
               queryParams = ''department=software''\<rparr>"

definition ex_three :: state where
  "ex_three = \<lparr>DB = [ex_first, ex_second, ex_third], trace = []\<rparr>"

definition ex_partial :: env where
  "ex_partial =
     \<lparr>NOTICE_WORKER = (\<lambda>u. if u = scheduled_target ''category=broken'' then FetchRejects
                             else Notices ex_feed),
      webhook_fetch = (\<lambda>u f. True), urlencode = (\<lambda>v. v)\<rparr>"

text \<open>The store \<open>ex_three\<close> in another order: the subscription that fails comes first.\<close>

definition ex_two :: state where
  "ex_two = \<lparr>DB = [ex_second, ex_third], trace = []\<rparr>"

section \<open>The delivery loops\<close>

lemma attempted_all: "delivers e wh ns \<Longrightarrow> attempted e wh ns = ns"
  by (induction ns) (auto simp: delivers_def)

lemma attempted_subset: "set (attempted e wh ns) \<subseteq> set ns"
  by (induction ns) auto

lemma refresh_loop_eq:
  "refresh_loop e wh ns s =
     (outcome e wh ns, s\<lparr>trace := trace s @ posts wh (attempted e wh ns)\<rparr>)"
proof (induction ns arbitrary: s)
  case Nil
  show ?case by (simp add: outcome_def delivers_def posts_def)
next
  case (Cons n ns)
  show ?case
    by (simp add: Cons.IH Let_def log_event_def outcome_def delivers_def posts_def message_def)
qed

lemma scheduled_loop_eq:
  "scheduled_loop e b ns s =
     (outcome e (webhook b) ns,
      s\<lparr>trace := trace s @ posts (webhook b) (attempted e (webhook b) ns)\<rparr>)"
proof (induction ns arbitrary: s)
  case Nil
  show ?case by (simp add: outcome_def delivers_def posts_def)
next
  case (Cons n ns)
  show ?case
    by (simp add: Cons.IH Let_def log_event_def outcome_def delivers_def posts_def message_def)
qed

section \<open>The three URLs\<close>

lemma absolute_scheduled_target: "absolute (scheduled_target q)"
  by (simp add: absolute_def scheduled_target_def letter_def scheme_char_def)

lemma register_target_eq: "register_target q = scheduled_target q"
  by (simp add: register_target_def scheduled_target_def API_URL_def)

lemma not_absolute_refresh_target: "\<not> absolute (refresh_target q)"
  by (simp add: absolute_def refresh_target_def letter_def)

lemma service_scheduled: "service e (scheduled_target q) = NOTICE_WORKER e (scheduled_target q)"
  by (simp add: service_def absolute_scheduled_target)

lemma service_register: "service e (register_target q) = NOTICE_WORKER e (register_target q)"
  by (simp add: service_def register_target_eq absolute_scheduled_target)

lemma service_refresh: "service e (refresh_target q) = FetchRejects"
  by (simp add: service_def not_absolute_refresh_target)

section \<open>One synchronisation of the sweep\<close>

lemma guarded_update_eq:
  "guarded_update wh w v s =
     \<lparr>DB = advance (DB s) wh w v, trace = trace s @ advance_events wh w v\<rparr>"
  by (simp add: guarded_update_def advance_def advance_events_def)

lemma scheduled_body_eq:
  assumes "NOTICE_WORKER e (scheduled_target (queryParams b)) = Notices ns"
  shows "scheduled_body e b s =
     (outcome e (webhook b) (newNotices (latestId b) ns),
      \<lparr>DB = advance (DB s) (webhook b) (latestId b) (latestId_of ns),
       trace = trace s @ [NoticeFetch (scheduled_target (queryParams b))]
                 @ advance_events (webhook b) (latestId b) (latestId_of ns)
                 @ posts (webhook b) (attempted e (webhook b) (newNotices (latestId b) ns))\<rparr>)"
  using assms
  by (simp add: scheduled_body_def service_scheduled log_event_def Let_def
      scheduled_loop_eq guarded_update_eq)

lemma scheduled_body_failure:
  assumes "feed_error (NOTICE_WORKER e (scheduled_target (queryParams b))) = Some err"
  shows "scheduled_body e b s =
     (Inl err, \<lparr>DB = DB s,
                trace = trace s @ [NoticeFetch (scheduled_target (queryParams b))]\<rparr>)"
  using assms
  by (simp add: scheduled_body_def service_scheduled log_event_def Let_def feed_error_def
      split: feed.splits)

lemma scheduled_body_malformed:
  assumes "latestId_in (NOTICE_WORKER e (scheduled_target (queryParams b))) = Some v"
    and "newNotices_in (latestId b) (NOTICE_WORKER e (scheduled_target (queryParams b))) = None"
  shows "scheduled_body e b s =
     (Inl MalformedFeed,
      \<lparr>DB = advance (DB s) (webhook b) (latestId b) v,
       trace = trace s @ [NoticeFetch (scheduled_target (queryParams b))]
                 @ advance_events (webhook b) (latestId b) v\<rparr>)"
  using assms
  by (cases "NOTICE_WORKER e (scheduled_target (queryParams b))")
     (simp_all add: scheduled_body_def service_scheduled log_event_def Let_def guarded_update_eq)

lemma scheduled_body_items:
  assumes "NOTICE_WORKER e (scheduled_target (queryParams b)) = Items xs"
    and "those xs = Some ns"
  shows "scheduled_body e b s =
     (outcome e (webhook b) (newNotices (latestId b) ns),
      \<lparr>DB = advance (DB s) (webhook b) (latestId b) (latestId_of ns),
       trace = trace s @ [NoticeFetch (scheduled_target (queryParams b))]
                 @ advance_events (webhook b) (latestId b) (latestId_of ns)
                 @ posts (webhook b) (attempted e (webhook b) (newNotices (latestId b) ns))\<rparr>)"
proof -
  have "(case xs of Some n # _ \<Rightarrow> nid n | _ \<Rightarrow> 0) = latestId_of ns"
    using assms(2)
    by (cases xs) (auto simp: latestId_of_def split: option.splits)
  with assms show ?thesis
    by (simp add: scheduled_body_def service_scheduled log_event_def Let_def
        scheduled_loop_eq guarded_update_eq)
qed

text \<open>
  Whatever the feed: the body fetches, writes at most the guarded update, and posts only
  notices with an id above the watermark of the row.
\<close>

lemma scheduled_body_shape:
  "\<exists>r v ds. scheduled_body e b s =
      (r, \<lparr>DB = advance (DB s) (webhook b) (latestId b) v,
           trace = trace s @ [NoticeFetch (scheduled_target (queryParams b))]
                     @ advance_events (webhook b) (latestId b) v @ posts (webhook b) ds\<rparr>)
     \<and> (\<forall>n \<in> set ds. latestId b < nid n)"
proof -
  let ?f = "NOTICE_WORKER e (scheduled_target (queryParams b))"
  let ?P = "\<lambda>r v ds. scheduled_body e b s =
      (r, \<lparr>DB = advance (DB s) (webhook b) (latestId b) v,
           trace = trace s @ [NoticeFetch (scheduled_target (queryParams b))]
                     @ advance_events (webhook b) (latestId b) v @ posts (webhook b) ds\<rparr>)
     \<and> (\<forall>n \<in> set ds. latestId b < nid n)"
  have new: "\<forall>n \<in> set (attempted e (webhook b) (newNotices (latestId b) ns)). latestId b < nid n"
    for ns
    using attempted_subset[of e "webhook b" "newNotices (latestId b) ns"]
    by (auto simp: newNotices_def)
  consider err where "feed_error ?f = Some err"
    | v where "latestId_in ?f = Some v" "newNotices_in (latestId b) ?f = None"
    | ns where "?f = Notices ns"
    | xs ns where "?f = Items xs" "those xs = Some ns"
    by (cases ?f) (auto simp: feed_error_def)
  then show ?thesis
  proof cases
    case 1
    have "?P (Inl err) (latestId b) []"
      by (simp add: scheduled_body_failure[OF 1] advance_def advance_events_def posts_def)
    then show ?thesis by blast
  next
    case 2
    have "?P (Inl MalformedFeed) v []"
      by (simp add: scheduled_body_malformed[OF 2] posts_def)
    then show ?thesis by blast
  next
    case 3
    have "?P (outcome e (webhook b) (newNotices (latestId b) ns)) (latestId_of ns)
        (attempted e (webhook b) (newNotices (latestId b) ns))"
      using new[of ns] by (simp add: scheduled_body_eq[OF 3])
    then show ?thesis by blast
  next
    case 4
    have "?P (outcome e (webhook b) (newNotices (latestId b) ns)) (latestId_of ns)
        (attempted e (webhook b) (newNotices (latestId b) ns))"
      using new[of ns] by (simp add: scheduled_body_items[OF 4])
    then show ?thesis by blast
  qed
qed

section \<open>The refresh\<close>

lemma fetch_refresh:
  assumes "refresh_request request wh"
    and "select_get (DB s) wh = Some info"
  shows "fetch e request s =
     (Inl UpstreamError,
      \<lparr>DB = DB s,
       trace = trace s @ [Select wh, NoticeFetch (refresh_target (queryParams info))]\<rparr>)"
  using assms
  by (simp add: fetch_def refresh_def refresh_request_def service_refresh log_event_def Let_def)

lemma refresh_shape:
  "\<exists>evs. snd (refresh e request s) = s\<lparr>trace := trace s @ evs\<rparr>
     \<and> (\<forall>u n f. Dispatch u n f \<notin> set evs)"
proof -
  have "snd (refresh e request s) = s\<lparr>trace := trace s @ []\<rparr>
    \<or> (\<exists>k. snd (refresh e request s) = s\<lparr>trace := trace s @ [Select k]\<rparr>)
    \<or> (\<exists>k u. snd (refresh e request s) = s\<lparr>trace := trace s @ [Select k, NoticeFetch u]\<rparr>)"
    by (auto simp: refresh_def service_refresh log_event_def Let_def split: option.splits)
  then show ?thesis
    by (elim disjE exE) (rule exI, erule conjI, simp)+
qed

section \<open>Facts about the feed and the store\<close>

lemma newest_first_le: "newest_first ns \<Longrightarrow> n \<in> set ns \<Longrightarrow> nid n \<le> latestId_of ns"
  by (cases ns) (auto simp: newest_first_def latestId_of_def)

lemma newNotices_empty:
  "newest_first ns \<Longrightarrow> latestId_of ns \<le> w \<Longrightarrow> newNotices w ns = []"
  by (auto simp: newNotices_def filter_empty_conv dest: newest_first_le)

lemma newNotices_sorted: "newest_first ns \<Longrightarrow> sorted (map nid (newNotices w ns))"
  by (simp add: newest_first_def newNotices_def sorted_map sorted_wrt_rev sorted_wrt_filter)

lemma set_newNotices: "set (newNotices w ns) = {n \<in> set ns. w < nid n}"
  by (auto simp: newNotices_def)

lemma select_get_update_set:
  "select_get (update_set db wh v) k =
     (if k = wh then map_option (\<lambda>r. r\<lparr>latestId := v\<rparr>) (select_get db wh)
      else select_get db k)"
  by (induction db) (auto simp: select_get_def update_set_def)

lemma select_get_append:
  "select_get (db @ [r]) k =
     (case select_get db k of Some x \<Rightarrow> Some x
      | None \<Rightarrow> if webhook r = k then Some r else None)"
  by (induction db) (auto simp: select_get_def)

lemma select_get_filter:
  "select_get (filter (\<lambda>r. webhook r \<noteq> wh) db) k = (if k = wh then None else select_get db k)"
  by (induction db) (auto simp: select_get_def)

lemma select_get_distinct:
  "distinct (map webhook db) \<Longrightarrow> b \<in> set db \<Longrightarrow> select_get db (webhook b) = Some b"
  by (induction db) (auto simp: select_get_def)

lemma select_get_SomeD: "select_get db k = Some r \<Longrightarrow> r \<in> set db \<and> webhook r = k"
  by (auto simp: select_get_def find_Some_iff)

lemma watermark_DB: "DB s = DB s' \<Longrightarrow> watermark s k = watermark s' k"
  by (simp add: watermark_def)

lemma map_webhook_update_set: "map webhook (update_set db wh v) = map webhook db"
  by (induction db) (simp_all add: update_set_def)

lemma map_webhook_advance: "map webhook (advance db wh w v) = map webhook db"
  by (simp add: advance_def map_webhook_update_set)

lemma watermark_advance:
  "watermark \<lparr>DB = advance db wh w v, trace = t\<rparr> k =
     (if k = wh \<and> w < v then map_option (\<lambda>_. v) (select_get db wh)
      else map_option latestId (select_get db k))"
  by (simp add: watermark_def advance_def select_get_update_set option.map_comp comp_def)

section \<open>Registration\<close>

lemma fetch_register:
  assumes "registration_request request wh p"
    and "NOTICE_WORKER e (register_target (query_of e p)) = Notices ns"
  shows "fetch e request s =
     (case select_get (DB s) wh of
        Some info \<Rightarrow>
          (Inr conflict,
           \<lparr>DB = DB s,
            trace = trace s @ [NoticeFetch (register_target (query_of e p)), Select wh]\<rparr>)
      | None \<Rightarrow>
          (Inr registered,
           \<lparr>DB = DB s @ [\<lparr>webhook = wh, latestId = latestId_of ns, queryParams = query_of e p\<rparr>],
            trace = trace s @ [NoticeFetch (register_target (query_of e p)), Select wh,
              Insert \<lparr>webhook = wh, latestId = latestId_of ns, queryParams = query_of e p\<rparr>]\<rparr>))"
proof (cases p)
  case (Payload cat dep search)
  with assms show ?thesis
    by (simp add: fetch_def post_webhook_def registration_request_def service_register
        log_event_def Let_def insert_values_def split: option.splits)
qed

section \<open>The sweep\<close>

lemma scheduled_for_append:
  "scheduled_for e (pre @ rest) s =
     (case scheduled_for e pre s of
        (Inl err, s1) \<Rightarrow> (Inl err, s1)
      | (Inr _, s1) \<Rightarrow> scheduled_for e rest s1)"
  by (induction pre arbitrary: s) (auto split: prod.splits sum.splits)

section \<open>What later synchronisations can deliver\<close>

lemma keepsI:
  "above L wh (DB s') \<Longrightarrow> trace s' = trace s @ evs \<Longrightarrow> list_all (fresh L wh) evs
   \<Longrightarrow> keeps L wh s s'"
  by (simp add: keeps_def)

lemma keepsE:
  assumes "keeps L wh s s'"
  obtains evs where "above L wh (DB s')" "trace s' = trace s @ evs" "list_all (fresh L wh) evs"
  using assms append_take_drop_id[of "length (trace s)" "trace s'"]
  unfolding keeps_def by metis

lemma keeps_trans:
  assumes "keeps L wh s s1" and "keeps L wh s1 s2"
  shows "keeps L wh s s2"
proof -
  from assms(1) obtain evs1 where 1: "trace s1 = trace s @ evs1" "list_all (fresh L wh) evs1"
    by (rule keepsE)
  from assms(2) obtain evs2 where 2: "above L wh (DB s2)" "trace s2 = trace s1 @ evs2"
      "list_all (fresh L wh) evs2"
    by (rule keepsE)
  show ?thesis
    by (rule keepsI[where evs = "evs1 @ evs2"]) (simp_all add: 1 2)
qed

lemma above_update_set:
  "above L wh db \<Longrightarrow> k \<noteq> wh \<or> L \<le> v \<Longrightarrow> above L wh (update_set db k v)"
  by (auto simp: above_def update_set_def list_all_iff)

lemma above_update_set_self: "above v wh (update_set db wh v)"
  by (induction db) (simp_all add: above_def update_set_def)


lemma fresh_posts:
  "k \<noteq> wh \<or> L \<le> w \<Longrightarrow> \<forall>n \<in> set ds. w < nid n \<Longrightarrow> list_all (fresh L wh) (posts k ds)"
  by (auto simp: posts_def list_all_iff)

lemma fresh_advance_events: "list_all (fresh L wh) (advance_events k w v)"
  by (simp add: advance_events_def)

lemma fresh_no_dispatch: "\<forall>u n f. Dispatch u n f \<notin> set evs \<Longrightarrow> list_all (fresh L wh) evs"
proof (induction evs)
  case Nil
  show ?case by simp
next
  case (Cons ev evs)
  then show ?case by (cases ev) auto
qed

lemma above_advance:
  "above L wh db \<Longrightarrow> k \<noteq> wh \<or> L \<le> w \<Longrightarrow> above L wh (advance db k w v)"
  by (auto simp: advance_def intro: above_update_set)

lemma scheduled_body_keeps:
  assumes "above L wh (DB s)" and "webhook b \<noteq> wh \<or> L \<le> latestId b"
  shows "keeps L wh s (snd (scheduled_body e b s))"
proof -
  from scheduled_body_shape[of e b s] obtain r v ds where
    eq: "scheduled_body e b s =
      (r, \<lparr>DB = advance (DB s) (webhook b) (latestId b) v,
           trace = trace s @ [NoticeFetch (scheduled_target (queryParams b))]
                     @ advance_events (webhook b) (latestId b) v @ posts (webhook b) ds\<rparr>)"
    and new: "\<forall>n \<in> set ds. latestId b < nid n"
    by blast
  show ?thesis
    unfolding eq
    by (rule keepsI[where evs = "[NoticeFetch (scheduled_target (queryParams b))]
          @ advance_events (webhook b) (latestId b) v @ posts (webhook b) ds"])
       (use assms new in \<open>simp_all add: above_advance fresh_posts fresh_advance_events\<close>)
qed

lemma keeps_refl: "above L wh (DB s) \<Longrightarrow> keeps L wh s s"
  by (simp add: keeps_def)

lemma scheduled_for_keeps:
  assumes "above L wh (DB s)" and "above L wh bots"
  shows "keeps L wh s (snd (scheduled_for e bots s))"
  using assms
proof (induction bots arbitrary: s)
  case Nil
  then show ?case by (simp add: keeps_refl)
next
  case (Cons b bots)
  from Cons.prems have b: "webhook b \<noteq> wh \<or> L \<le> latestId b" and rest: "above L wh bots"
    by (simp_all add: above_def)
  have one: "keeps L wh s (snd (scheduled_body e b s))"
    by (rule scheduled_body_keeps[OF Cons.prems(1) b])
  then have "above L wh (DB (snd (scheduled_body e b s)))"
    by (simp add: keeps_def)
  from Cons.IH[OF this rest] one
  have "keeps L wh s (snd (scheduled_for e bots (snd (scheduled_body e b s))))"
    by (blast intro: keeps_trans)
  with one show ?case
    by (cases "scheduled_body e b s") (auto split: sum.splits)
qed

lemma scheduled_keeps:
  assumes "above L wh (DB s)"
  shows "keeps L wh s (snd (scheduled e s))"
proof -
  have "keeps L wh s (log_event SelectAll s)"
    using assms by (intro keepsI[where evs = "[SelectAll]"]) (simp_all add: log_event_def)
  moreover have "keeps L wh (log_event SelectAll s)
      (snd (scheduled_for e (DB (log_event SelectAll s)) (log_event SelectAll s)))"
    using assms by (intro scheduled_for_keeps) (simp_all add: log_event_def)
  ultimately show ?thesis
    unfolding scheduled_def Let_def by (rule keeps_trans)
qed

lemma refresh_keeps:
  assumes "above L wh (DB s)"
  shows "keeps L wh s (snd (refresh e request s))"
proof -
  from refresh_shape[of e request s] obtain evs where
    eq: "snd (refresh e request s) = s\<lparr>trace := trace s @ evs\<rparr>"
    and no: "\<forall>u n f. Dispatch u n f \<notin> set evs"
    by blast
  show ?thesis
    unfolding eq
    by (rule keepsI[where evs = evs]) (use assms fresh_no_dispatch[OF no] in simp_all)
qed

lemma step_keeps:
  assumes "is_sync c" and "above L wh (DB s)"
  shows "keeps L wh s (step c s)"
proof (cases c)
  case (Pair e k)
  show ?thesis
  proof (cases k)
    case Cron
    with Pair assms(2) show ?thesis by (simp add: scheduled_keeps)
  next
    case (Http request)
    with Pair assms(1) have "fetch e request s = refresh e request s"
      by (simp add: fetch_def)
    with Pair Http assms(2) show ?thesis by (simp add: refresh_keeps)
  qed
qed

lemma run_keeps:
  assumes "list_all is_sync cs" and "above L wh (DB s)"
  shows "keeps L wh s (run cs s)"
  using assms
proof (induction cs arbitrary: s)
  case Nil
  then show ?case by (simp add: run_def keeps_refl)
next
  case (Cons c cs)
  from Cons.prems have one: "keeps L wh s (step c s)"
    by (simp add: step_keeps)
  then have "above L wh (DB (step c s))"
    by (simp add: keeps_def)
  with Cons have "keeps L wh (step c s) (run cs (step c s))"
    by simp
  with one show ?case
    unfolding run_def by (auto intro: keeps_trans)
qed



section \<open>The watermark of a webhook along an invocation\<close>

lemma scheduled_body_watermark:
  "watermark (snd (scheduled_body e b s)) k = watermark s k
   \<or> (k = webhook b \<and> (\<exists>v. latestId b < v \<and> watermark s k \<noteq> None
        \<and> watermark (snd (scheduled_body e b s)) k = Some v))"
proof -
  from scheduled_body_shape[of e b s] obtain r v ds where
    eq: "scheduled_body e b s =
      (r, \<lparr>DB = advance (DB s) (webhook b) (latestId b) v,
           trace = trace s @ [NoticeFetch (scheduled_target (queryParams b))]
                     @ advance_events (webhook b) (latestId b) v @ posts (webhook b) ds\<rparr>)"
    by blast
  show ?thesis
    unfolding eq
    by (cases "select_get (DB s) (webhook b)")
       (simp_all add: watermark_def advance_def select_get_update_set)
qed

lemma scheduled_for_grows:
  assumes "distinct (map webhook bots)"
    and "\<forall>b \<in> set bots. watermark s (webhook b) = Some (latestId b)"
  shows "rel_option (\<le>) (watermark s k) (watermark (snd (scheduled_for e bots s)) k)"
  using assms
proof (induction bots arbitrary: s)
  case Nil
  show ?case by (simp add: option.rel_refl)
next
  case (Cons b bots)
  let ?s1 = "snd (scheduled_body e b s)"
  have b: "watermark s (webhook b) = Some (latestId b)"
    using Cons.prems(2) by simp
  have one: "rel_option (\<le>) (watermark s k) (watermark ?s1 k)" for k
    using scheduled_body_watermark[of e b s k] b
    by (cases "watermark s k") (auto simp: option.rel_refl)
  have other: "watermark ?s1 (webhook b') = Some (latestId b')" if "b' \<in> set bots" for b'
  proof -
    from that have "webhook b' \<in> set (map webhook bots)" by simp
    with Cons.prems(1) have "webhook b' \<noteq> webhook b" by auto
    with scheduled_body_watermark[of e b s "webhook b'"] Cons.prems(2) that
    show ?thesis by auto
  qed
  have "rel_option (\<le>) (watermark ?s1 k) (watermark (snd (scheduled_for e bots ?s1)) k)"
    using Cons.prems(1) other by (intro Cons.IH) auto
  with one[of k]
  have "rel_option (\<le>) (watermark s k) (watermark (snd (scheduled_for e bots ?s1)) k)"
    by (cases "watermark s k"; cases "watermark ?s1 k";
        cases "watermark (snd (scheduled_for e bots ?s1)) k") auto
  with one[of k] show ?case
    by (cases "scheduled_body e b s") (auto split: sum.splits)
qed

lemma scheduled_grows:
  assumes "distinct (map webhook (DB s))"
  shows "rel_option (\<le>) (watermark s k) (watermark (snd (scheduled e s)) k)"
proof -
  let ?s0 = "log_event SelectAll s"
  have "rel_option (\<le>) (watermark ?s0 k) (watermark (snd (scheduled_for e (DB ?s0) ?s0)) k)"
    using assms
    by (intro scheduled_for_grows) (simp_all add: log_event_def watermark_def select_get_distinct)
  then show ?thesis
    by (simp add: scheduled_def Let_def watermark_def log_event_def)
qed

lemma get_webhook_DB: "DB (snd (get_webhook request s)) = DB s"
  by (simp add: get_webhook_def log_event_def Let_def split: option.splits)

lemma delete_webhook_watermark:
  "watermark (snd (delete_webhook request s)) k = watermark s k
   \<or> watermark (snd (delete_webhook request s)) k = None"
  by (simp add: delete_webhook_def delete_where_def log_event_def Let_def watermark_def
      select_get_filter split: option.splits)

lemma post_webhook_watermark:
  "watermark s k = Some w \<Longrightarrow> watermark (snd (post_webhook e request s)) k = Some w"
  by (auto simp: post_webhook_def insert_values_def log_event_def Let_def watermark_def
      select_get_append split: option.splits feed.splits Payload.splits)

lemma refresh_DB: "DB (snd (refresh e request s)) = DB s"
  using refresh_shape[of e request s] by auto

lemma fetch_grows:
  assumes "watermark s k = Some w" and "watermark (snd (fetch e request s)) k = Some w'"
  shows "w \<le> w'"
proof -
  have "snd (fetch e request s) = s
    \<or> snd (fetch e request s) = snd (get_webhook request s)
    \<or> snd (fetch e request s) = snd (post_webhook e request s)
    \<or> snd (fetch e request s) = snd (delete_webhook request s)
    \<or> snd (fetch e request s) = snd (refresh e request s)"
    by (simp add: fetch_def)
  then consider "snd (fetch e request s) = s"
    | "snd (fetch e request s) = snd (get_webhook request s)"
    | "snd (fetch e request s) = snd (post_webhook e request s)"
    | "snd (fetch e request s) = snd (delete_webhook request s)"
    | "snd (fetch e request s) = snd (refresh e request s)"
    by blast
  then show ?thesis
  proof cases
    case 1
    with assms show ?thesis by simp
  next
    case 2
    with assms watermark_DB[OF get_webhook_DB, of request s k] show ?thesis by simp
  next
    case 3
    with assms post_webhook_watermark[OF assms(1), of e request] show ?thesis by simp
  next
    case 4
    with assms delete_webhook_watermark[of request s k] show ?thesis by auto
  next
    case 5
    with assms watermark_DB[OF refresh_DB, of e request s k] show ?thesis by simp
  qed
qed


lemma scheduled_body_webhooks:
  "map webhook (DB (snd (scheduled_body e b s))) = map webhook (DB s)"
  using scheduled_body_shape[of e b s] by (auto simp: map_webhook_advance)

lemma scheduled_for_webhooks:
  "map webhook (DB (snd (scheduled_for e bots s))) = map webhook (DB s)"
proof (induction bots arbitrary: s)
  case Nil
  show ?case by simp
next
  case (Cons b bots)
  from Cons.IH[of "snd (scheduled_body e b s)"] scheduled_body_webhooks[of e b s]
  show ?case
    by (cases "scheduled_body e b s") (auto split: sum.splits)
qed

lemma post_webhook_distinct:
  "distinct (map webhook (DB s)) \<Longrightarrow> distinct (map webhook (DB (snd (post_webhook e request s))))"
  by (auto simp: post_webhook_def insert_values_def log_event_def Let_def select_get_def
      find_None_iff split: option.splits feed.splits Payload.splits)

lemma delete_webhook_distinct:
  "distinct (map webhook (DB s)) \<Longrightarrow> distinct (map webhook (DB (snd (delete_webhook request s))))"
  by (simp add: delete_webhook_def delete_where_def log_event_def Let_def distinct_map_filter
      split: option.splits)

lemma step_distinct:
  assumes "distinct (map webhook (DB s))"
  shows "distinct (map webhook (DB (step (e, c) s)))"
proof (cases c)
  case (Http request)
  have "snd (fetch e request s) = s
    \<or> snd (fetch e request s) = snd (get_webhook request s)
    \<or> snd (fetch e request s) = snd (post_webhook e request s)
    \<or> snd (fetch e request s) = snd (delete_webhook request s)
    \<or> snd (fetch e request s) = snd (refresh e request s)"
    by (simp add: fetch_def)
  with assms post_webhook_distinct[OF assms, of e request]
    delete_webhook_distinct[OF assms, of request]
    refresh_DB[of e request s] get_webhook_DB[of request s]
  show ?thesis
    unfolding Http by auto
next
  case Cron
  with assms scheduled_for_webhooks[of e "DB (log_event SelectAll s)" "log_event SelectAll s"]
  show ?thesis
    by (simp add: scheduled_def Let_def log_event_def)
qed

section \<open>Sweeps of small stores\<close>

lemma scheduled_target_inject: "scheduled_target q = scheduled_target q' \<longleftrightarrow> q = q'"
  by (simp add: scheduled_target_def)

lemma scheduled_single:
  "DB s = [b] \<Longrightarrow>
   scheduled e s =
     (case scheduled_body e b (log_event SelectAll s) of
        (Inl err, s1) \<Rightarrow> (Inl err, s1) | (Inr _, s1) \<Rightarrow> (Inr (), s1))"
  by (simp add: scheduled_def Let_def log_event_def split: prod.splits sum.splits)

section \<open>Unfolding the example data\<close>

lemmas ex_defs =
  ex_hook_def ex_query_def ex_notice_def ex_feed_def ex_bot_def ex_state_def ex_empty_def
  ex_env_def ex_unreachable_def ex_down_def ex_broken_def ex_refresh_def ex_payload_def
  ex_register_def ex_payload2_def ex_register2_def ex_get_def

section \<open>C1: delivery of the gap\<close>

text \<open>
  Claim C1, as amended, for the synchronisation that the sweep makes for a row \<open>b\<close> of the
  store with watermark \<open>W\<close> (\<open>latestId b\<close>). When the fetch gives a newest-first list and
  the POSTs all resolve, it completes and makes exactly one POST per notice with id
  above \<open>W\<close>, in the reverse of the feed order, which is ascending in the id; the only
  store write is the guarded update, so the watermark afterwards is the larger of \<open>W\<close>
  and the id of the first notice (0 for an empty list), not the newest fetched id in
  every case.
\<close>

theorem sync_delivers_gap_in_order:
  assumes "select_get (DB s) (webhook b) = Some b"
    and "NOTICE_WORKER e (scheduled_target (queryParams b)) = Notices ns"
    and "newest_first ns"
    and "delivers e (webhook b) (rev (filter (\<lambda>n. latestId b < nid n) ns))"
  shows "scheduled_body e b s =
      (Inr (),
       \<lparr>DB = (if latestId b < latestId_of ns
               then update_set (DB s) (webhook b) (latestId_of ns) else DB s),
        trace = trace s @ [NoticeFetch (scheduled_target (queryParams b))]
          @ (if latestId b < latestId_of ns then [Update (webhook b) (latestId_of ns)] else [])
          @ map (\<lambda>n. Dispatch (webhook b) n (message n))
              (rev (filter (\<lambda>n. latestId b < nid n) ns))\<rparr>)
     \<and> sorted (map nid (rev (filter (\<lambda>n. latestId b < nid n) ns)))
     \<and> watermark (snd (scheduled_body e b s)) (webhook b)
         = Some (max (latestId b) (latestId_of ns))"
proof -
  have d: "delivers e (webhook b) (newNotices (latestId b) ns)"
    using assms(4) by (simp add: newNotices_def)
  have "sorted (map nid (rev (filter (\<lambda>n. latestId b < nid n) ns)))"
    using newNotices_sorted[OF assms(3), of "latestId b"] by (simp add: newNotices_def)
  moreover have "scheduled_body e b s =
      (Inr (),
       \<lparr>DB = (if latestId b < latestId_of ns
               then update_set (DB s) (webhook b) (latestId_of ns) else DB s),
        trace = trace s @ [NoticeFetch (scheduled_target (queryParams b))]
          @ (if latestId b < latestId_of ns then [Update (webhook b) (latestId_of ns)] else [])
          @ map (\<lambda>n. Dispatch (webhook b) n (message n))
              (rev (filter (\<lambda>n. latestId b < nid n) ns))\<rparr>)"
    unfolding scheduled_body_eq[OF assms(2)] outcome_def attempted_all[OF d] posts_def
      advance_def advance_events_def
    using d by (simp add: newNotices_def)
  moreover have "watermark (snd (scheduled_body e b s)) (webhook b)
      = Some (max (latestId b) (latestId_of ns))"
    unfolding scheduled_body_eq[OF assms(2)]
    using assms(1) by (simp add: watermark_def advance_def select_get_update_set)
  ultimately show ?thesis by simp
qed

text \<open>
  The example of the claim, in a sweep of the store that holds the one subscription: the
  feed 103, 102, 101, 100 and the watermark 100 give the deliveries 101, 102, 103 in
  that order, after the update of the watermark to 103.
\<close>

theorem sync_delivers_gap_in_order_witness:
  "select_get (DB (log_event SelectAll (ex_state 100))) (webhook (ex_bot 100)) = Some (ex_bot 100)
   \<and> NOTICE_WORKER ex_env (scheduled_target (queryParams (ex_bot 100))) = Notices ex_feed
   \<and> newest_first ex_feed
   \<and> delivers ex_env (webhook (ex_bot 100))
        (rev (filter (\<lambda>n. latestId (ex_bot 100) < nid n) ex_feed))
   \<and> scheduled ex_env (ex_state 100) =
       (Inr (),
        \<lparr>DB = [ex_bot 103],
         trace = [SelectAll, NoticeFetch (scheduled_target ex_query), Update ex_hook 103,
                  Dispatch ex_hook (ex_notice 101) (message (ex_notice 101)),
                  Dispatch ex_hook (ex_notice 102) (message (ex_notice 102)),
                  Dispatch ex_hook (ex_notice 103) (message (ex_notice 103))]\<rparr>)
   \<and> watermark (snd (scheduled ex_env (ex_state 100))) ex_hook = Some 103"
proof -
  let ?s = "log_event SelectAll (ex_state 100)"
  have h1: "select_get (DB ?s) (webhook (ex_bot 100)) = Some (ex_bot 100)"
    by (simp add: select_get_def log_event_def ex_state_def)
  have h2: "NOTICE_WORKER ex_env (scheduled_target (queryParams (ex_bot 100))) = Notices ex_feed"
    by (simp add: ex_env_def)
  have h3: "newest_first ex_feed"
    by (simp add: newest_first_def ex_feed_def ex_notice_def)
  have h4: "delivers ex_env (webhook (ex_bot 100))
      (rev (filter (\<lambda>n. latestId (ex_bot 100) < nid n) ex_feed))"
    by (simp add: delivers_def ex_env_def list_all_iff)
  have l: "latestId_of ex_feed = 103" "latestId (ex_bot 100) = 100"
      "queryParams (ex_bot 100) = ex_query" "webhook (ex_bot 100) = ex_hook"
    by (simp_all add: latestId_of_def ex_feed_def ex_notice_def ex_bot_def)
  have f: "rev (filter (\<lambda>n. 100 < nid n) ex_feed) = [ex_notice 101, ex_notice 102, ex_notice 103]"
    by (simp add: ex_feed_def ex_notice_def)
  have u: "update_set (DB ?s) ex_hook 103 = [ex_bot 103]" "trace ?s = [SelectAll]"
    by (simp_all add: update_set_def log_event_def ex_state_def ex_bot_def)
  have body: "scheduled_body ex_env (ex_bot 100) ?s =
       (Inr (),
        \<lparr>DB = [ex_bot 103],
         trace = [SelectAll, NoticeFetch (scheduled_target ex_query), Update ex_hook 103,
                  Dispatch ex_hook (ex_notice 101) (message (ex_notice 101)),
                  Dispatch ex_hook (ex_notice 102) (message (ex_notice 102)),
                  Dispatch ex_hook (ex_notice 103) (message (ex_notice 103))]\<rparr>)"
    using sync_delivers_gap_in_order[OF h1 h2 h3 h4]
    by (simp add: l f u)
  have db: "DB (ex_state 100) = [ex_bot 100]"
    by (simp add: ex_state_def)
  have sweep: "scheduled ex_env (ex_state 100) = scheduled_body ex_env (ex_bot 100) ?s"
    by (simp add: scheduled_single[OF db] body)
  have wm: "watermark (snd (scheduled ex_env (ex_state 100))) ex_hook = Some 103"
    unfolding sweep body by (simp add: watermark_def select_get_def ex_bot_def)
  from h1 h2 h3 h4 wm show ?thesis
    by (simp only: sweep body simp_thms)
qed

text \<open>
  C1 as it is stated fails where the newest fetched id is below the stored watermark: with
  the watermark 105 and the same feed, the sweep completes, and the watermark stays 105
  and is not 103.
\<close>

theorem sync_watermark_counterexample:
  "watermark (ex_state 105) ex_hook = Some 105
   \<and> NOTICE_WORKER ex_env (scheduled_target ex_query) = Notices ex_feed
   \<and> newest_first ex_feed
   \<and> latestId_of ex_feed = 103
   \<and> fst (scheduled ex_env (ex_state 105)) = Inr ()
   \<and> watermark (snd (scheduled ex_env (ex_state 105))) ex_hook \<noteq> Some (latestId_of ex_feed)"
  by (simp add: watermark_def select_get_def newest_first_def latestId_of_def scheduled_def
      scheduled_body_def service_scheduled guarded_update_def log_event_def newNotices_def
      ex_defs)

section \<open>C5: nothing new, nothing done\<close>

text \<open>
  Claim C5, for the sweep. A row is \<open>idle\<close> when its fetch gives a newest-first list whose
  newest id (0 for the empty list) is at most its watermark. The synchronisation of an
  idle row \<open>b\<close>, in any state \<open>s'\<close>, completes and its only effect is the fetch of the
  feed: no update, no POST, the store as it was. Hence a sweep over a store whose rows
  are all idle completes with the store unchanged and no effect but reading the rows
  and fetching their feeds, and so does any number \<open>k\<close> of such sweeps in a row.
\<close>

theorem no_new_notices_no_effect:
  assumes "idle e b"
    and "list_all (idle e) (DB s)"
  shows "scheduled_body e b s' =
     (Inr (), \<lparr>DB = DB s',
                trace = trace s' @ [NoticeFetch (scheduled_target (queryParams b))]\<rparr>)
    \<and> scheduled e s = (Inr (), \<lparr>DB = DB s, trace = trace s @ idle_sweep (DB s)\<rparr>)
    \<and> (step (e, Cron) ^^ k) s =
        \<lparr>DB = DB s, trace = trace s @ concat (replicate k (idle_sweep (DB s)))\<rparr>"
proof -
  have body: "scheduled_body e r t =
     (Inr (), \<lparr>DB = DB t, trace = trace t @ [NoticeFetch (scheduled_target (queryParams r))]\<rparr>)"
    if "idle e r" for r t
  proof -
    from that obtain ns where f: "NOTICE_WORKER e (scheduled_target (queryParams r)) = Notices ns"
      and n: "newest_first ns" "latestId_of ns \<le> latestId r"
      by (auto simp: idle_def split: feed.splits)
    show ?thesis
      using n
      by (simp add: scheduled_body_eq[OF f] newNotices_empty outcome_def delivers_def
          advance_def advance_events_def posts_def)
  qed
  have loop: "scheduled_for e bots t =
     (Inr (), \<lparr>DB = DB t,
        trace = trace t @ map (\<lambda>b. NoticeFetch (scheduled_target (queryParams b))) bots\<rparr>)"
    if "list_all (idle e) bots" for bots t
    using that
  proof (induction bots arbitrary: t)
    case Nil
    show ?case by simp
  next
    case (Cons r bots)
    then show ?case by (simp add: body)
  qed
  have sweep: "scheduled e t = (Inr (), \<lparr>DB = DB t, trace = trace t @ idle_sweep (DB t)\<rparr>)"
    if "list_all (idle e) (DB t)" for t
    using that by (simp add: scheduled_def Let_def log_event_def loop idle_sweep_def)
  have "list_all (idle e) (DB t) \<Longrightarrow> (step (e, Cron) ^^ k) t =
        \<lparr>DB = DB t, trace = trace t @ concat (replicate k (idle_sweep (DB t)))\<rparr>" for t
  proof (induction k arbitrary: t)
    case 0
    show ?case by simp
  next
    case (Suc k)
    let ?t1 = "\<lparr>DB = DB t, trace = trace t @ idle_sweep (DB t)\<rparr>"
    have one: "step (e, Cron) t = ?t1"
      using sweep[OF Suc.prems] by simp
    have "list_all (idle e) (DB ?t1)"
      using Suc.prems by simp
    from Suc.IH[OF this]
    have "(step (e, Cron) ^^ k) ?t1 =
       \<lparr>DB = DB t, trace = trace t @ concat (replicate (Suc k) (idle_sweep (DB t)))\<rparr>"
      by (simp del: step.simps)
    then show ?case
      by (simp only: funpow_Suc_right o_apply one)
  qed
  with body[OF assms(1)] sweep[OF assms(2)] assms(2) show ?thesis by simp
qed

text \<open>The watermark 103 and the feed 103, 102, 101, 100: one sweep, and two in a row.\<close>

theorem no_new_notices_no_effect_witness:
  "idle ex_env (ex_bot 103)
   \<and> list_all (idle ex_env) (DB (ex_state 103))
   \<and> scheduled_body ex_env (ex_bot 103) (ex_state 103) =
        (Inr (), \<lparr>DB = [ex_bot 103], trace = [NoticeFetch (scheduled_target ex_query)]\<rparr>)
   \<and> scheduled ex_env (ex_state 103) =
        (Inr (),
         \<lparr>DB = [ex_bot 103], trace = [SelectAll, NoticeFetch (scheduled_target ex_query)]\<rparr>)
   \<and> (step (ex_env, Cron) ^^ 2) (ex_state 103) =
        \<lparr>DB = [ex_bot 103],
         trace = [SelectAll, NoticeFetch (scheduled_target ex_query),
                  SelectAll, NoticeFetch (scheduled_target ex_query)]\<rparr>"
proof -
  have h1: "idle ex_env (ex_bot 103)"
    by (simp add: idle_def newest_first_def latestId_of_def ex_env_def ex_feed_def ex_notice_def
        ex_bot_def)
  have h2: "list_all (idle ex_env) (DB (ex_state 103))"
    using h1 by (simp add: ex_state_def)
  have l: "DB (ex_state 103) = [ex_bot 103]" "trace (ex_state 103) = []"
      "queryParams (ex_bot 103) = ex_query"
    by (simp_all add: ex_state_def ex_bot_def)
  have r: "concat (replicate 2 [SelectAll, NoticeFetch (scheduled_target ex_query)])
      = [SelectAll, NoticeFetch (scheduled_target ex_query),
         SelectAll, NoticeFetch (scheduled_target ex_query)]"
      "idle_sweep [ex_bot 103] = [SelectAll, NoticeFetch (scheduled_target ex_query)]"
    by (simp_all add: numeral_2_eq_2 idle_sweep_def l)
  from no_new_notices_no_effect[OF h1 h2, of "ex_state 103" 2] h1 h2
  show ?thesis
    by (simp only: l r append_Nil simp_thms)
qed

section \<open>C7: a feed that fails\<close>

text \<open>
  Claim C7, as amended, for the synchronisation that the sweep makes for a row \<open>b\<close>. When
  the fetch of the feed rejects, or its body is not JSON or is \<open>null\<close>, the
  synchronisation ends with that exception, its only effect is the fetch, and the store
  is exactly what it was. When the body is JSON but not a list of notices (it is not an
  array, or an element of the array is \<open>null\<close>), the synchronisation ends with an
  exception as well and makes no POST, but only after the guarded update: the watermark
  has been set to the id \<open>v\<close> of the element 0 (0 if there is none) when \<open>v\<close> exceeds it.
\<close>

theorem upstream_failure_aborts_sync:
  shows "(feed_error (NOTICE_WORKER e (scheduled_target (queryParams b))) = Some err \<longrightarrow>
          scheduled_body e b s =
            (Inl err,
             \<lparr>DB = DB s, trace = trace s @ [NoticeFetch (scheduled_target (queryParams b))]\<rparr>))
       \<and> (latestId_in (NOTICE_WORKER e (scheduled_target (queryParams b))) = Some v
          \<and> newNotices_in (latestId b) (NOTICE_WORKER e (scheduled_target (queryParams b))) = None
          \<longrightarrow>
          scheduled_body e b s =
            (Inl MalformedFeed,
             \<lparr>DB = (if latestId b < v then update_set (DB s) (webhook b) v else DB s),
              trace = trace s @ [NoticeFetch (scheduled_target (queryParams b))]
                @ (if latestId b < v then [Update (webhook b) v] else [])\<rparr>))"
  using scheduled_body_failure[of e b err s] scheduled_body_malformed[of e b v s]
  by (simp add: advance_def advance_events_def)

text \<open>
  A sweep while the notice service cannot be reached, and a sweep while it answers with
  the array of a notice 500 and a \<open>null\<close>.
\<close>

theorem upstream_failure_aborts_sync_witness:
  "feed_error (NOTICE_WORKER ex_down (scheduled_target (queryParams (ex_bot 100))))
       = Some UpstreamError
   \<and> scheduled_body ex_down (ex_bot 100) (ex_state 100) =
       (Inl UpstreamError,
        \<lparr>DB = [ex_bot 100], trace = [NoticeFetch (scheduled_target ex_query)]\<rparr>)
   \<and> latestId_in (NOTICE_WORKER ex_broken (scheduled_target (queryParams (ex_bot 100))))
       = Some 500
   \<and> newNotices_in (latestId (ex_bot 100))
        (NOTICE_WORKER ex_broken (scheduled_target (queryParams (ex_bot 100)))) = None
   \<and> scheduled_body ex_broken (ex_bot 100) (ex_state 100) =
       (Inl MalformedFeed,
        \<lparr>DB = [ex_bot 500],
         trace = [NoticeFetch (scheduled_target ex_query), Update ex_hook 500]\<rparr>)"
proof -
  have h1: "feed_error (NOTICE_WORKER ex_down (scheduled_target (queryParams (ex_bot 100))))
       = Some UpstreamError"
    by (simp add: ex_down_def feed_error_def)
  have h2: "latestId_in (NOTICE_WORKER ex_broken (scheduled_target (queryParams (ex_bot 100))))
       = Some 500"
    by (simp add: ex_broken_def ex_notice_def)
  have h3: "newNotices_in (latestId (ex_bot 100))
        (NOTICE_WORKER ex_broken (scheduled_target (queryParams (ex_bot 100)))) = None"
    by (simp add: ex_broken_def)
  have l: "DB (ex_state 100) = [ex_bot 100]" "trace (ex_state 100) = []"
      "queryParams (ex_bot 100) = ex_query" "webhook (ex_bot 100) = ex_hook"
      "latestId (ex_bot 100) = 100" "update_set [ex_bot 100] ex_hook 500 = [ex_bot 500]"
    by (simp_all add: ex_state_def ex_bot_def update_set_def)
  from upstream_failure_aborts_sync[of ex_down "ex_bot 100" UpstreamError "ex_state 100" 0]
    upstream_failure_aborts_sync[of ex_broken "ex_bot 100" UpstreamError "ex_state 100" 500]
    h1 h2 h3
  show ?thesis
    by (simp add: l)
qed

text \<open>
  C7 as it is stated fails for a body that is JSON but not a list of notices: with the
  watermark 100 and the array of a notice 500 and a \<open>null\<close>, the sweep ends with an
  exception and no POST, and the stored watermark is 500.
\<close>

theorem malformed_feed_counterexample:
  "NOTICE_WORKER ex_broken (scheduled_target ex_query) = Items [Some (ex_notice 500), None]
   \<and> DB (ex_state 100) = [ex_bot 100]
   \<and> scheduled ex_broken (ex_state 100) =
       (Inl MalformedFeed,
        \<lparr>DB = [ex_bot 500],
         trace = [SelectAll, NoticeFetch (scheduled_target ex_query), Update ex_hook 500]\<rparr>)
   \<and> DB (snd (scheduled ex_broken (ex_state 100))) \<noteq> DB (ex_state 100)"
  by (simp add: scheduled_def scheduled_body_def service_scheduled guarded_update_def
      log_event_def update_set_def ex_defs)

section \<open>C2: the watermark moves before the deliveries\<close>

text \<open>
  Claim C2, for the synchronisation that the sweep makes for a row \<open>b\<close> of the store.
  When the id of the first fetched notice exceeds the watermark of \<open>b\<close>, the effects are
  the fetch, the update of the watermark and only then the POSTs, up to the first that
  rejects; the stored watermark afterwards is the new one whether or not a POST
  rejected. For a newest-first list, no notice \<open>n\<close> of it is posted to the webhook again by
  any sequence \<open>cs\<close> of later sweeps and refresh requests, with whatever collaborators:
  the earlier effects stay as they are, and the later ones hold no POST of \<open>n\<close> to the
  webhook of \<open>b\<close>.
\<close>

theorem watermark_advances_before_dispatch:
  assumes "select_get (DB s) (webhook b) = Some b"
    and "NOTICE_WORKER e (scheduled_target (queryParams b)) = Notices ns"
    and "latestId b < latestId_of ns"
    and "newest_first ns"
    and "n \<in> set ns"
    and "list_all is_sync cs"
  shows "fst (scheduled_body e b s) =
         (if delivers e (webhook b) (newNotices (latestId b) ns) then Inr ()
          else Inl DispatchError)
     \<and> trace (snd (scheduled_body e b s)) =
         trace s @ [NoticeFetch (scheduled_target (queryParams b)),
                    Update (webhook b) (latestId_of ns)]
           @ map (\<lambda>n. Dispatch (webhook b) n (message n))
               (attempted e (webhook b) (newNotices (latestId b) ns))
     \<and> watermark (snd (scheduled_body e b s)) (webhook b) = Some (latestId_of ns)
     \<and> take (length (trace (snd (scheduled_body e b s))))
          (trace (run cs (snd (scheduled_body e b s))))
         = trace (snd (scheduled_body e b s))
     \<and> Dispatch (webhook b) n f
         \<notin> set (drop (length (trace (snd (scheduled_body e b s))))
                  (trace (run cs (snd (scheduled_body e b s)))))"
proof -
  let ?s1 = "snd (scheduled_body e b s)"
  note eq = scheduled_body_eq[OF assms(2)]
  have db: "DB ?s1 = update_set (DB s) (webhook b) (latestId_of ns)"
    using assms(3) by (simp add: eq advance_def)
  have "above (latestId_of ns) (webhook b) (DB ?s1)"
    unfolding db by (rule above_update_set_self)
  from run_keeps[OF assms(6) this]
  have later: "take (length (trace ?s1)) (trace (run cs ?s1)) = trace ?s1"
    "list_all (fresh (latestId_of ns) (webhook b))
       (drop (length (trace ?s1)) (trace (run cs ?s1)))"
    by (simp_all add: keeps_def)
  have old: "nid n \<le> latestId_of ns"
    by (rule newest_first_le[OF assms(4,5)])
  have gone: "Dispatch (webhook b) n f
      \<notin> set (drop (length (trace ?s1)) (trace (run cs ?s1)))"
  proof
    assume "Dispatch (webhook b) n f \<in> set (drop (length (trace ?s1)) (trace (run cs ?s1)))"
    with later(2) have "fresh (latestId_of ns) (webhook b) (Dispatch (webhook b) n f)"
      by (auto simp: list_all_iff)
    with old show False by simp
  qed
  have wm: "watermark ?s1 (webhook b) = Some (latestId_of ns)"
    using assms(1) by (simp add: watermark_def db select_get_update_set)
  have tr: "trace ?s1 = trace s @ [NoticeFetch (scheduled_target (queryParams b)),
                              Update (webhook b) (latestId_of ns)]
          @ map (\<lambda>n. Dispatch (webhook b) n (message n))
              (attempted e (webhook b) (newNotices (latestId b) ns))"
    using assms(3) by (simp add: eq advance_events_def posts_def)
  have res: "fst (scheduled_body e b s) =
         (if delivers e (webhook b) (newNotices (latestId b) ns) then Inr ()
          else Inl DispatchError)"
    by (simp add: eq outcome_def)
  from res tr wm later(1) gone show ?thesis
    by (intro conjI)
qed

text \<open>
  The endpoint cannot be reached during a sweep of the store that holds the one
  subscription: the POST for notice 101 rejects and ends the sweep, the watermark is
  103, and a later sweep and refresh request with a reachable endpoint do not post
  notice 101.
\<close>

theorem watermark_advances_before_dispatch_witness:
  "select_get (DB (log_event SelectAll (ex_state 100))) (webhook (ex_bot 100)) = Some (ex_bot 100)
   \<and> NOTICE_WORKER ex_unreachable (scheduled_target (queryParams (ex_bot 100))) = Notices ex_feed
   \<and> latestId (ex_bot 100) < latestId_of ex_feed
   \<and> newest_first ex_feed
   \<and> ex_notice 101 \<in> set ex_feed
   \<and> list_all is_sync [(ex_env, Cron), (ex_env, Http ex_refresh)]
   \<and> fst (scheduled ex_unreachable (ex_state 100)) = Inl DispatchError
   \<and> trace (snd (scheduled ex_unreachable (ex_state 100))) =
       [SelectAll, NoticeFetch (scheduled_target ex_query), Update ex_hook 103,
        Dispatch ex_hook (ex_notice 101) (message (ex_notice 101))]
   \<and> watermark (snd (scheduled ex_unreachable (ex_state 100))) ex_hook = Some 103
   \<and> Dispatch ex_hook (ex_notice 101) (message (ex_notice 101))
       \<notin> set (drop (length (trace (snd (scheduled ex_unreachable (ex_state 100)))))
                (trace (run [(ex_env, Cron), (ex_env, Http ex_refresh)]
                         (snd (scheduled ex_unreachable (ex_state 100))))))"
proof -
  let ?s = "log_event SelectAll (ex_state 100)"
  have h1: "select_get (DB ?s) (webhook (ex_bot 100)) = Some (ex_bot 100)"
    by (simp add: select_get_def log_event_def ex_state_def)
  have h2: "NOTICE_WORKER ex_unreachable (scheduled_target (queryParams (ex_bot 100)))
      = Notices ex_feed"
    by (simp add: ex_unreachable_def)
  have h3: "latestId (ex_bot 100) < latestId_of ex_feed"
    by (simp add: latestId_of_def ex_feed_def ex_notice_def ex_bot_def)
  have h4: "newest_first ex_feed"
    by (simp add: newest_first_def ex_feed_def ex_notice_def)
  have h5: "ex_notice 101 \<in> set ex_feed"
    by (simp add: ex_feed_def)
  have h6: "list_all is_sync [(ex_env, Cron), (ex_env, Http ex_refresh)]"
    by (simp add: ex_refresh_def)
  have l: "latestId_of ex_feed = 103" "latestId (ex_bot 100) = 100"
      "queryParams (ex_bot 100) = ex_query" "webhook (ex_bot 100) = ex_hook"
      "trace ?s = [SelectAll]"
    by (simp_all add: latestId_of_def ex_feed_def ex_notice_def ex_bot_def ex_state_def
        log_event_def)
  have n: "newNotices 100 ex_feed = [ex_notice 101, ex_notice 102, ex_notice 103]"
    by (simp add: newNotices_def ex_feed_def ex_notice_def)
  have w: "\<not> webhook_fetch ex_unreachable u f" for u f
    by (simp add: ex_unreachable_def)
  have a: "attempted ex_unreachable ex_hook [ex_notice 101, ex_notice 102, ex_notice 103]
      = [ex_notice 101]"
      "\<not> delivers ex_unreachable ex_hook [ex_notice 101, ex_notice 102, ex_notice 103]"
    by (simp_all add: delivers_def w)
  note body = watermark_advances_before_dispatch[OF h1 h2 h3 h4 h5 h6,
      of "message (ex_notice 101)"]
  have failed: "fst (scheduled_body ex_unreachable (ex_bot 100) ?s) = Inl DispatchError"
    using body by (simp add: l n a)
  have db: "DB (ex_state 100) = [ex_bot 100]"
    by (simp add: ex_state_def)
  have sweep: "scheduled ex_unreachable (ex_state 100)
      = scheduled_body ex_unreachable (ex_bot 100) ?s"
    using failed
    by (cases "scheduled_body ex_unreachable (ex_bot 100) ?s")
       (simp add: scheduled_single[OF db])
  from body h1 h2 h3 h4 h5 h6 show ?thesis
    unfolding sweep by (auto simp: l n a w)
qed

section \<open>C3: registration excludes the backlog\<close>

text \<open>
  Claim C3. A registration of a webhook that is not in the store, whose body is read and
  whose fetch of the feed gives a list, is answered 201 and appends the row with the
  query string built from the body and with the watermark set to the id of the first
  notice of that list, or 0 when the list is empty. When the list is newest-first, the
  synchronisation that a sweep makes for this new row while the feed is the same list,
  in whatever state \<open>t\<close> the sweep reaches the row, completes and does nothing but
  fetch: no update and no POST.
\<close>

theorem registration_excludes_backlog:
  assumes "registration_request request wh p"
    and "select_get (DB s) wh = None"
    and "NOTICE_WORKER e (register_target (query_of e p)) = Notices ns"
    and "newest_first ns"
    and "NOTICE_WORKER e' (scheduled_target (query_of e p)) = Notices ns"
  shows "fst (fetch e request s) = Inr registered
     \<and> DB (snd (fetch e request s)) =
         DB s @ [\<lparr>webhook = wh, latestId = (case ns of [] \<Rightarrow> 0 | n # _ \<Rightarrow> nid n),
                  queryParams = query_of e p\<rparr>]
     \<and> watermark (snd (fetch e request s)) wh = Some (case ns of [] \<Rightarrow> 0 | n # _ \<Rightarrow> nid n)
     \<and> scheduled_body e'
          \<lparr>webhook = wh, latestId = (case ns of [] \<Rightarrow> 0 | n # _ \<Rightarrow> nid n),
           queryParams = query_of e p\<rparr>
          t =
         (Inr (),
          \<lparr>DB = DB t, trace = trace t @ [NoticeFetch (scheduled_target (query_of e p))]\<rparr>)"
proof -
  let ?new = "\<lparr>webhook = wh, latestId = latestId_of ns, queryParams = query_of e p\<rparr>"
  let ?s1 = "\<lparr>DB = DB s @ [?new],
     trace = trace s @ [NoticeFetch (register_target (query_of e p)), Select wh, Insert ?new]\<rparr>"
  have reg: "fetch e request s = (Inr registered, ?s1)"
    using fetch_register[OF assms(1,3), of s] assms(2) by simp
  have sel: "select_get (DB ?s1) wh = Some ?new"
    using assms(2) by (simp add: select_get_append)
  have feed: "NOTICE_WORKER e' (scheduled_target (queryParams ?new)) = Notices ns"
    using assms(5) by simp
  have idle: "newNotices (latestId ?new) ns = []"
    using assms(4) by (simp add: newNotices_empty)
  have "scheduled_body e' ?new t =
      (Inr (),
       \<lparr>DB = DB t, trace = trace t @ [NoticeFetch (scheduled_target (query_of e p))]\<rparr>)"
    unfolding scheduled_body_eq[OF feed] idle
    by (simp add: outcome_def delivers_def advance_def advance_events_def posts_def)
  with reg sel show ?thesis
    by (simp add: watermark_def latestId_of_def)
qed

text \<open>
  Registration on the empty store while the feed is 103, 102, 101, 100, and a sweep right
  after it.
\<close>

theorem registration_excludes_backlog_witness:
  "registration_request ex_register ex_hook ex_payload
   \<and> select_get (DB ex_empty) ex_hook = None
   \<and> NOTICE_WORKER ex_env (register_target (query_of ex_env ex_payload)) = Notices ex_feed
   \<and> newest_first ex_feed
   \<and> NOTICE_WORKER ex_env (scheduled_target (query_of ex_env ex_payload)) = Notices ex_feed
   \<and> fst (fetch ex_env ex_register ex_empty) = Inr registered
   \<and> DB (snd (fetch ex_env ex_register ex_empty)) = [ex_bot 103]
   \<and> watermark (snd (fetch ex_env ex_register ex_empty)) ex_hook = Some 103
   \<and> scheduled ex_env (snd (fetch ex_env ex_register ex_empty)) =
        (Inr (),
         \<lparr>DB = [ex_bot 103],
          trace = [NoticeFetch (register_target ex_query), Select ex_hook, Insert (ex_bot 103),
                   SelectAll, NoticeFetch (scheduled_target ex_query)]\<rparr>)"
proof -
  have h1: "registration_request ex_register ex_hook ex_payload"
    by (simp add: registration_request_def ex_defs)
  have h2: "select_get (DB ex_empty) ex_hook = None"
    by (simp add: select_get_def ex_empty_def)
  have h3: "NOTICE_WORKER ex_env (register_target (query_of ex_env ex_payload)) = Notices ex_feed"
    by (simp add: ex_env_def)
  have h4: "newest_first ex_feed"
    by (simp add: newest_first_def ex_feed_def ex_notice_def)
  have h5: "NOTICE_WORKER ex_env (scheduled_target (query_of ex_env ex_payload)) = Notices ex_feed"
    by (simp add: ex_env_def)
  have q: "query_of ex_env ex_payload = ex_query"
    by (simp add: ex_payload_def ex_env_def ex_query_def append_param_def)
  have l: "(case ex_feed of [] \<Rightarrow> 0 | n # _ \<Rightarrow> nid n) = 103"
    by (simp add: ex_feed_def ex_notice_def)
  have b: "\<lparr>webhook = ex_hook, latestId = 103, queryParams = ex_query\<rparr> = ex_bot 103"
    by (simp add: ex_bot_def)
  have d: "DB ex_empty = []" "trace ex_empty = []"
    by (simp_all add: ex_empty_def)
  have s1: "snd (fetch ex_env ex_register ex_empty) =
      \<lparr>DB = [ex_bot 103],
       trace = [NoticeFetch (register_target ex_query), Select ex_hook, Insert (ex_bot 103)]\<rparr>"
    using fetch_register[OF h1 h3, of ex_empty] h2
    by (simp add: q d latestId_of_def l b)
  let ?t = "log_event SelectAll (snd (fetch ex_env ex_register ex_empty))"
  note th = registration_excludes_backlog[OF h1 h2 h3 h4 h5, of ?t]
  have reg: "fst (fetch ex_env ex_register ex_empty) = Inr registered"
      "DB (snd (fetch ex_env ex_register ex_empty)) = [ex_bot 103]"
      "watermark (snd (fetch ex_env ex_register ex_empty)) ex_hook = Some 103"
    using th by (simp_all add: q l b d)
  have body: "scheduled_body ex_env (ex_bot 103) ?t =
      (Inr (),
       \<lparr>DB = [ex_bot 103],
        trace = [NoticeFetch (register_target ex_query), Select ex_hook, Insert (ex_bot 103),
                 SelectAll, NoticeFetch (scheduled_target ex_query)]\<rparr>)"
    using th by (simp add: q l b s1 log_event_def)
  have sweep: "scheduled ex_env (snd (fetch ex_env ex_register ex_empty)) =
      (Inr (),
       \<lparr>DB = [ex_bot 103],
        trace = [NoticeFetch (register_target ex_query), Select ex_hook, Insert (ex_bot 103),
                 SelectAll, NoticeFetch (scheduled_target ex_query)]\<rparr>)"
    by (simp add: scheduled_single[OF reg(2)] body)
  from h1 h2 h3 h4 h5 reg sweep show ?thesis
    by (intro conjI)
qed

section \<open>C6: one row per webhook\<close>

text \<open>
  Claim C6. For registrations whose body is read and whose fetch of the feed gives a
  list: on a store \<open>s\<close> that has the webhook the answer is 409 and the store is unchanged;
  on a store \<open>s'\<close> that does not have it the answer is 201 and the row is appended; and of
  two registrations of the same webhook handled one after the other on \<open>s'\<close>, in either
  order, the first is answered 201 and the second 409, the second leaving the row of the
  first as it is.
\<close>

theorem creation_is_unique:
  assumes "registration_request r1 wh p1"
    and "NOTICE_WORKER e1 (register_target (query_of e1 p1)) = Notices ns1"
    and "registration_request r2 wh p2"
    and "NOTICE_WORKER e2 (register_target (query_of e2 p2)) = Notices ns2"
    and "select_get (DB s) wh = Some info"
    and "select_get (DB s') wh = None"
  shows "(fst (fetch e1 r1 s) = Inr conflict \<and> DB (snd (fetch e1 r1 s)) = DB s)
     \<and> (fst (fetch e1 r1 s') = Inr registered
        \<and> DB (snd (fetch e1 r1 s')) =
            DB s' @ [\<lparr>webhook = wh, latestId = latestId_of ns1,
                      queryParams = query_of e1 p1\<rparr>])
     \<and> (fst (fetch e1 r1 s') = Inr registered
        \<and> fst (fetch e2 r2 (snd (fetch e1 r1 s'))) = Inr conflict
        \<and> DB (snd (fetch e2 r2 (snd (fetch e1 r1 s')))) = DB (snd (fetch e1 r1 s')))
     \<and> (fst (fetch e2 r2 s') = Inr registered
        \<and> fst (fetch e1 r1 (snd (fetch e2 r2 s'))) = Inr conflict
        \<and> DB (snd (fetch e1 r1 (snd (fetch e2 r2 s')))) = DB (snd (fetch e2 r2 s')))
     \<and> status conflict = 409 \<and> status registered = 201"
proof -
  have a: "fst (fetch e1 r1 s) = Inr conflict \<and> DB (snd (fetch e1 r1 s)) = DB s"
    using fetch_register[OF assms(1,2), of s] assms(5) by simp
  have b: "fst (fetch e1 r1 s') = Inr registered
        \<and> DB (snd (fetch e1 r1 s')) =
            DB s' @ [\<lparr>webhook = wh, latestId = latestId_of ns1,
                      queryParams = query_of e1 p1\<rparr>]"
    using fetch_register[OF assms(1,2), of s'] assms(6) by simp
  have c: "fst (fetch e1 r1 s') = Inr registered
        \<and> fst (fetch e2 r2 (snd (fetch e1 r1 s'))) = Inr conflict
        \<and> DB (snd (fetch e2 r2 (snd (fetch e1 r1 s')))) = DB (snd (fetch e1 r1 s'))"
    using assms(6)
    by (simp add: fetch_register[OF assms(1,2)] fetch_register[OF assms(3,4)] select_get_append)
  have d: "fst (fetch e2 r2 s') = Inr registered
        \<and> fst (fetch e1 r1 (snd (fetch e2 r2 s'))) = Inr conflict
        \<and> DB (snd (fetch e1 r1 (snd (fetch e2 r2 s')))) = DB (snd (fetch e2 r2 s'))"
    using assms(6)
    by (simp add: fetch_register[OF assms(1,2)] fetch_register[OF assms(3,4)] select_get_append)
  have e: "status conflict = 409 \<and> status registered = 201"
    by (simp add: conflict_def registered_def)
  from a b c d e show ?thesis by blast
qed

text \<open>Two registrations of \<open>ex_hook\<close> with different filters, in both orders.\<close>

theorem creation_is_unique_witness:
  "registration_request ex_register ex_hook ex_payload
   \<and> NOTICE_WORKER ex_env (register_target (query_of ex_env ex_payload)) = Notices ex_feed
   \<and> registration_request ex_register2 ex_hook ex_payload2
   \<and> NOTICE_WORKER ex_env (register_target (query_of ex_env ex_payload2)) = Notices ex_feed
   \<and> select_get (DB (ex_state 100)) ex_hook = Some (ex_bot 100)
   \<and> select_get (DB ex_empty) ex_hook = None
   \<and> fst (fetch ex_env ex_register (ex_state 100)) = Inr conflict
   \<and> DB (snd (fetch ex_env ex_register (ex_state 100))) = [ex_bot 100]
   \<and> fst (fetch ex_env ex_register ex_empty) = Inr registered
   \<and> DB (snd (fetch ex_env ex_register ex_empty)) = [ex_bot 103]
   \<and> fst (fetch ex_env ex_register2 (snd (fetch ex_env ex_register ex_empty))) = Inr conflict
   \<and> DB (snd (fetch ex_env ex_register2 (snd (fetch ex_env ex_register ex_empty)))) = [ex_bot 103]
   \<and> fst (fetch ex_env ex_register2 ex_empty) = Inr registered
   \<and> fst (fetch ex_env ex_register (snd (fetch ex_env ex_register2 ex_empty))) = Inr conflict
   \<and> DB (snd (fetch ex_env ex_register (snd (fetch ex_env ex_register2 ex_empty))))
       = DB (snd (fetch ex_env ex_register2 ex_empty))"
proof -
  have h1: "registration_request ex_register ex_hook ex_payload"
    by (simp add: registration_request_def ex_defs)
  have h2: "NOTICE_WORKER ex_env (register_target (query_of ex_env ex_payload)) = Notices ex_feed"
    by (simp add: ex_env_def)
  have h3: "registration_request ex_register2 ex_hook ex_payload2"
    by (simp add: registration_request_def ex_defs)
  have h4: "NOTICE_WORKER ex_env (register_target (query_of ex_env ex_payload2)) = Notices ex_feed"
    by (simp add: ex_env_def)
  have h5: "select_get (DB (ex_state 100)) ex_hook = Some (ex_bot 100)"
    by (simp add: select_get_def ex_defs)
  have h6: "select_get (DB ex_empty) ex_hook = None"
    by (simp add: select_get_def ex_empty_def)
  have q: "query_of ex_env ex_payload = ex_query"
      "query_of ex_env ex_payload2 = ''department=software''"
    by (simp_all add: ex_payload_def ex_payload2_def ex_env_def ex_query_def append_param_def)
  have l: "latestId_of ex_feed = 103" "DB (ex_state 100) = [ex_bot 100]" "DB ex_empty = []"
      "\<lparr>webhook = ex_hook, latestId = 103, queryParams = ex_query\<rparr> = ex_bot 103"
    by (simp_all add: latestId_of_def ex_feed_def ex_notice_def ex_state_def ex_empty_def
        ex_bot_def)
  from creation_is_unique[OF h1 h2 h3 h4 h5 h6] h1 h2 h3 h4 h5 h6
  show ?thesis
    by (simp add: q l)
qed

section \<open>C10: the refresh and the body of the sweep\<close>

text \<open>
  Claim C10 holds of the text of the two paths but not of the program: the refresh
  handler never reaches its copy of the synchronisation. For every request that finds
  its row and all collaborators, the call of the notice service at line 165 is refused
  (\<open>fetch_refresh\<close>), because its URL has no origin. On the gap example, with a notice
  service that would give the same list for any URL, the refresh ends with the
  exception after the lookup, with no update and no POST, while the body of the sweep
  on the same row writes 103 and posts 101, 102, 103.
\<close>

theorem refresh_differs_from_sweep_body:
  "refresh_request ex_refresh ex_hook
   \<and> select_get (DB (ex_state 100)) ex_hook = Some (ex_bot 100)
   \<and> NOTICE_WORKER ex_env (refresh_target ex_query) = Notices ex_feed
   \<and> NOTICE_WORKER ex_env (scheduled_target ex_query) = Notices ex_feed
   \<and> fetch ex_env ex_refresh (ex_state 100) =
       (Inl UpstreamError,
        \<lparr>DB = [ex_bot 100], trace = [Select ex_hook, NoticeFetch (refresh_target ex_query)]\<rparr>)
   \<and> scheduled_body ex_env (ex_bot 100) (ex_state 100) =
       (Inr (),
        \<lparr>DB = [ex_bot 103],
         trace = [NoticeFetch (scheduled_target ex_query), Update ex_hook 103,
                  Dispatch ex_hook (ex_notice 101) (message (ex_notice 101)),
                  Dispatch ex_hook (ex_notice 102) (message (ex_notice 102)),
                  Dispatch ex_hook (ex_notice 103) (message (ex_notice 103))]\<rparr>)"
proof -
  have h1: "refresh_request ex_refresh ex_hook"
    by (simp add: refresh_request_def ex_defs)
  have h2: "select_get (DB (ex_state 100)) ex_hook = Some (ex_bot 100)"
    by (simp add: select_get_def ex_defs)
  have h3: "NOTICE_WORKER ex_env (refresh_target ex_query) = Notices ex_feed"
      "NOTICE_WORKER ex_env (scheduled_target ex_query) = Notices ex_feed"
    by (simp_all add: ex_env_def)
  have f: "NOTICE_WORKER ex_env (scheduled_target (queryParams (ex_bot 100))) = Notices ex_feed"
    by (simp add: ex_env_def)
  have l: "latestId_of ex_feed = 103" "latestId (ex_bot 100) = 100"
      "queryParams (ex_bot 100) = ex_query" "webhook (ex_bot 100) = ex_hook"
      "DB (ex_state 100) = [ex_bot 100]" "trace (ex_state 100) = []"
      "update_set [ex_bot 100] ex_hook 103 = [ex_bot 103]"
    by (simp_all add: latestId_of_def ex_feed_def ex_notice_def ex_bot_def ex_state_def
        update_set_def)
  have n: "newNotices 100 ex_feed = [ex_notice 101, ex_notice 102, ex_notice 103]"
    by (simp add: newNotices_def ex_feed_def ex_notice_def)
  have w: "webhook_fetch ex_env u g" for u g
    by (simp add: ex_env_def)
  have refresh: "fetch ex_env ex_refresh (ex_state 100) =
       (Inl UpstreamError,
        \<lparr>DB = [ex_bot 100], trace = [Select ex_hook, NoticeFetch (refresh_target ex_query)]\<rparr>)"
    by (simp add: fetch_refresh[OF h1 h2] l)
  have body: "scheduled_body ex_env (ex_bot 100) (ex_state 100) =
       (Inr (),
        \<lparr>DB = [ex_bot 103],
         trace = [NoticeFetch (scheduled_target ex_query), Update ex_hook 103,
                  Dispatch ex_hook (ex_notice 101) (message (ex_notice 101)),
                  Dispatch ex_hook (ex_notice 102) (message (ex_notice 102)),
                  Dispatch ex_hook (ex_notice 103) (message (ex_notice 103))]\<rparr>)"
    by (simp add: scheduled_body_eq[OF f] l n w outcome_def delivers_def advance_def
        advance_events_def posts_def)
  from h1 h2 h3 refresh body show ?thesis
    by (intro conjI)
qed

section \<open>C4: a failure during the sweep\<close>

text \<open>
  Claim C4, as amended. The sweep handles the rows in the order of the list it read, and
  a body that ends with an exception (the fetch of the feed rejects, its body is not a
  list of notices, or a POST rejects) ends the sweep with that exception: when the bodies of the
  rows \<open>pre\<close> have completed and the body of the next row \<open>b\<close> fails, the sweep ends in
  the state that \<open>b\<close> left, whatever rows \<open>post\<close> follow; nothing is fetched, written or
  posted for them.
\<close>

theorem sweep_stops_at_first_failure:
  assumes "DB s = pre @ b # post"
    and "scheduled_for e pre (log_event SelectAll s) = (Inr (), s1)"
    and "scheduled_body e b s1 = (Inl err, s2)"
  shows "scheduled e s = (Inl err, s2)"
  using assms
  by (simp add: scheduled_def Let_def log_event_def scheduled_for_append)

text \<open>
  Three subscriptions, the feed of the second cannot be fetched: the first is
  synchronised (notice 103 is delivered), the sweep ends at the second, and the third,
  for which notice 103 is new as well, is not reached.
\<close>

theorem sweep_stops_at_first_failure_witness:
  "DB ex_three = [ex_first] @ ex_second # [ex_third]
   \<and> scheduled_for ex_partial [ex_first] (log_event SelectAll ex_three) =
       (Inr (),
        \<lparr>DB = [ex_first\<lparr>latestId := 103\<rparr>, ex_second, ex_third],
         trace = [SelectAll, NoticeFetch (scheduled_target (queryParams ex_first)),
                  Update (webhook ex_first) 103,
                  Dispatch (webhook ex_first) (ex_notice 103) (message (ex_notice 103))]\<rparr>)
   \<and> scheduled_body ex_partial ex_second
        \<lparr>DB = [ex_first\<lparr>latestId := 103\<rparr>, ex_second, ex_third],
         trace = [SelectAll, NoticeFetch (scheduled_target (queryParams ex_first)),
                  Update (webhook ex_first) 103,
                  Dispatch (webhook ex_first) (ex_notice 103) (message (ex_notice 103))]\<rparr> =
       (Inl UpstreamError,
        \<lparr>DB = [ex_first\<lparr>latestId := 103\<rparr>, ex_second, ex_third],
         trace = [SelectAll, NoticeFetch (scheduled_target (queryParams ex_first)),
                  Update (webhook ex_first) 103,
                  Dispatch (webhook ex_first) (ex_notice 103) (message (ex_notice 103)),
                  NoticeFetch (scheduled_target (queryParams ex_second))]\<rparr>)
   \<and> scheduled ex_partial ex_three =
       (Inl UpstreamError,
        \<lparr>DB = [ex_first\<lparr>latestId := 103\<rparr>, ex_second, ex_third],
         trace = [SelectAll, NoticeFetch (scheduled_target (queryParams ex_first)),
                  Update (webhook ex_first) 103,
                  Dispatch (webhook ex_first) (ex_notice 103) (message (ex_notice 103)),
                  NoticeFetch (scheduled_target (queryParams ex_second))]\<rparr>)"
proof -
  have h1: "DB ex_three = [ex_first] @ ex_second # [ex_third]"
    by (simp add: ex_three_def)
  have h2: "scheduled_for ex_partial [ex_first] (log_event SelectAll ex_three) =
       (Inr (),
        \<lparr>DB = [ex_first\<lparr>latestId := 103\<rparr>, ex_second, ex_third],
         trace = [SelectAll, NoticeFetch (scheduled_target (queryParams ex_first)),
                  Update (webhook ex_first) 103,
                  Dispatch (webhook ex_first) (ex_notice 103) (message (ex_notice 103))]\<rparr>)"
    by (simp add: scheduled_body_def service_scheduled guarded_update_def log_event_def
        latestId_of_def newNotices_def update_set_def message_def ex_first_def ex_second_def
        ex_third_def ex_three_def ex_partial_def ex_feed_def ex_notice_def
        scheduled_target_inject)
  have h3: "scheduled_body ex_partial ex_second
        \<lparr>DB = [ex_first\<lparr>latestId := 103\<rparr>, ex_second, ex_third],
         trace = [SelectAll, NoticeFetch (scheduled_target (queryParams ex_first)),
                  Update (webhook ex_first) 103,
                  Dispatch (webhook ex_first) (ex_notice 103) (message (ex_notice 103))]\<rparr> =
       (Inl UpstreamError,
        \<lparr>DB = [ex_first\<lparr>latestId := 103\<rparr>, ex_second, ex_third],
         trace = [SelectAll, NoticeFetch (scheduled_target (queryParams ex_first)),
                  Update (webhook ex_first) 103,
                  Dispatch (webhook ex_first) (ex_notice 103) (message (ex_notice 103)),
                  NoticeFetch (scheduled_target (queryParams ex_second))]\<rparr>)"
    by (simp add: scheduled_body_def service_scheduled log_event_def ex_partial_def
        ex_second_def)
  from sweep_stops_at_first_failure[OF h1 h2 h3] h1 h2 h3
  show ?thesis
    by (intro conjI)
qed

text \<open>
  C4 as it is stated fails: when the subscription whose feed cannot be fetched comes
  first, the other one, whose feed is fine and holds the new notice 103, is neither
  fetched nor delivered to, and its watermark stays 102.
\<close>

theorem sweep_abort_counterexample:
  "DB ex_two = [ex_second, ex_third]
   \<and> NOTICE_WORKER ex_partial (scheduled_target (queryParams ex_second)) = FetchRejects
   \<and> NOTICE_WORKER ex_partial (scheduled_target (queryParams ex_third)) = Notices ex_feed
   \<and> newNotices (latestId ex_third) ex_feed = [ex_notice 103]
   \<and> scheduled ex_partial ex_two =
       (Inl UpstreamError,
        \<lparr>DB = [ex_second, ex_third],
         trace = [SelectAll, NoticeFetch (scheduled_target (queryParams ex_second))]\<rparr>)
   \<and> NoticeFetch (scheduled_target (queryParams ex_third))
       \<notin> set (trace (snd (scheduled ex_partial ex_two)))
   \<and> Dispatch (webhook ex_third) (ex_notice 103) (message (ex_notice 103))
       \<notin> set (trace (snd (scheduled ex_partial ex_two)))
   \<and> watermark (snd (scheduled ex_partial ex_two)) (webhook ex_third) = Some 102"
  by (simp add: scheduled_def scheduled_body_def service_scheduled log_event_def newNotices_def
      watermark_def select_get_def ex_first_def ex_second_def ex_third_def ex_two_def
      ex_partial_def ex_feed_def ex_notice_def scheduled_target_inject)

section \<open>C8: the missing parameter\<close>

text \<open>
  Claim C8. A GET, POST or DELETE on \<open>/api/webhook\<close> without the query parameter
  \<open>webhook\<close> is answered with status 400, and the state is returned as it was: no store
  operation and no fetch has been made.
\<close>

theorem missing_webhook_parameter:
  assumes "pathname request = ''/api/webhook''"
    and "meth request = ''GET'' \<or> meth request = ''POST'' \<or> meth request = ''DELETE''"
    and "map_of (searchParams request) ''webhook'' = None"
  shows "fetch e request s = (Inr bad_request, s) \<and> status bad_request = 400"
  using assms
  by (auto simp: fetch_def get_webhook_def post_webhook_def delete_webhook_def bad_request_def)

text \<open>The three methods on a request without parameters.\<close>

theorem missing_webhook_parameter_witness:
  "pathname ex_get = ''/api/webhook''
   \<and> meth ex_get = ''GET''
   \<and> map_of (searchParams ex_get) ''webhook'' = None
   \<and> fetch ex_env ex_get (ex_state 100) = (Inr bad_request, ex_state 100)
   \<and> fetch ex_env (ex_get\<lparr>meth := ''POST''\<rparr>) (ex_state 100) = (Inr bad_request, ex_state 100)
   \<and> fetch ex_env (ex_get\<lparr>meth := ''DELETE''\<rparr>) (ex_state 100) = (Inr bad_request, ex_state 100)
   \<and> status bad_request = 400"
proof -
  have h1: "pathname ex_get = ''/api/webhook''" "meth ex_get = ''GET''"
      "map_of (searchParams ex_get) ''webhook'' = None"
    by (simp_all add: ex_get_def)
  have p: "pathname (ex_get\<lparr>meth := m\<rparr>) = ''/api/webhook''"
      "meth (ex_get\<lparr>meth := m\<rparr>) = m"
      "map_of (searchParams (ex_get\<lparr>meth := m\<rparr>)) ''webhook'' = None" for m
    by (simp_all add: ex_get_def)
  from missing_webhook_parameter[of ex_get ex_env "ex_state 100"]
    missing_webhook_parameter[of "ex_get\<lparr>meth := ''POST''\<rparr>" ex_env "ex_state 100"]
    missing_webhook_parameter[of "ex_get\<lparr>meth := ''DELETE''\<rparr>" ex_env "ex_state 100"]
  show ?thesis
    by (simp only: h1 p simp_thms)
qed

section \<open>C9: the watermark never decreases\<close>

text \<open>
  Claim C9. In a store where the webhooks are distinct (the primary key, kept by every
  invocation: \<open>step_distinct\<close>), an invocation of either handler, with any request and any
  collaborators, that starts with the watermark \<open>w\<close> stored for a webhook and ends with
  \<open>w'\<close> stored for it has \<open>w \<le> w'\<close>.
\<close>

theorem watermark_never_decreases:
  assumes "distinct (map webhook (DB s))"
    and "watermark s wh = Some w"
    and "watermark (step (e, c) s) wh = Some w'"
  shows "w \<le> w'"
proof (cases c)
  case (Http request)
  with assms(2,3) show ?thesis
    by (auto intro: fetch_grows)
next
  case Cron
  with scheduled_grows[OF assms(1), of wh e] assms(2,3) show ?thesis
    by simp
qed



text \<open>The sweep of the gap example moves the watermark from 100 to 103.\<close>

theorem watermark_never_decreases_witness:
  "distinct (map webhook (DB (ex_state 100)))
   \<and> watermark (ex_state 100) ex_hook = Some 100
   \<and> watermark (step (ex_env, Cron) (ex_state 100)) ex_hook = Some 103
   \<and> (100 :: int) \<le> 103"
proof -
  have h1: "distinct (map webhook (DB (ex_state 100)))"
    by (simp add: ex_state_def)
  have h2: "watermark (ex_state 100) ex_hook = Some 100"
    by (simp add: watermark_def select_get_def ex_state_def ex_bot_def)
  have f: "NOTICE_WORKER ex_env (scheduled_target (queryParams (ex_bot 100))) = Notices ex_feed"
    by (simp add: ex_env_def)
  have db: "DB (ex_state 100) = [ex_bot 100]"
    by (simp add: ex_state_def)
  have "DB (snd (scheduled ex_env (ex_state 100))) = [ex_bot 103]"
    unfolding scheduled_single[OF db] scheduled_body_eq[OF f]
    by (simp add: log_event_def db advance_def update_set_def latestId_of_def ex_feed_def
        ex_notice_def ex_bot_def split: sum.splits)
  then have h3: "watermark (step (ex_env, Cron) (ex_state 100)) ex_hook = Some 103"
    by (simp add: watermark_def select_get_def ex_bot_def)
  from watermark_never_decreases[OF h1 h2 h3] h1 h2 h3
  show ?thesis
    by simp
qed

end
